theory Spec2Isabelle
  imports Main "HOL-Library.AList"
begin

section \<open>The dataset-creation notebook\<close>

text \<open>
  The notebook \<^verbatim>\<open>notes/custom_datasets/lmdb_dataset_creation.ipynb\<close>: it relaxes a toy
  system, converts the frames of the trajectory to graph records and writes them to two
  stores of the embedded key-value database, a single file for the IS2RE task and a
  directory of files for the S2EF task, then reads both back.
\<close>

subsection \<open>Values, errors and the key-value store\<close>

text \<open>
  Exceptions a cell can end with. \<open>NameError\<close> and \<open>IndexError\<close> are raised by the
  interpreter while it evaluates the notebook's own expressions; \<open>LibraryError\<close> stands for
  any exception that a call into an external library raises (a missing trajectory file,
  for example).
\<close>

datatype error =
    NameError string
  | IndexError
  | LibraryError string

text \<open>
  The identifiers the notebook stores in a graph record: the IS2RE loop assigns the plain
  Python integer \<open>idx\<close>, the S2EF loop assigns \<open>torch.LongTensor([0])\<close> and
  \<open>torch.LongTensor([fid])\<close>.
\<close>

datatype idval = PyInt nat | LongTensor "nat list"

text \<open>
  The graph record (\<open>torch_geometric.data.Data\<close>) restricted to the attributes the notebook
  reads, assigns or deletes. \<open>'t\<close> is the payload of a float tensor or float (positions,
  energies), on which the notebook never computes. \<open>edge_index\<close> is a \<open>2 \<times> E\<close> tensor, kept as
  the list of its \<open>E\<close> columns, so that \<open>edge_index.shape[1]\<close> is its length. An attribute
  that may be absent is an option: reading an absent attribute of a graph record gives
  \<open>None\<close>, and \<open>del\<close> makes the attribute absent (and does nothing when it already is).
\<close>

record 't data =
  pos :: 't
  edge_index :: "(nat \<times> nat) list"
  y :: "'t option"
  tags :: "int list option"
  sid :: "idval option"
  fid :: "idval option"
  y_init :: "'t option"
  y_relaxed :: "'t option"
  pos_relaxed :: "'t option"

text \<open>
  What is handed to \<open>pickle.dumps\<close>: a graph record, or the integer \<open>len(data_objects)\<close>.
  Serialisation is the library's; the model keeps the serialised bytes as the tagged
  object, so that \<open>pickle.loads\<close> is its inverse.
\<close>

datatype 't pyobj = DataObj "'t data" | IntObj nat

datatype 't pickled = Pickled "'t pyobj"

definition pickle_dumps :: "'t pyobj \<Rightarrow> 't pickled" where
  "pickle_dumps obj = Pickled obj"

fun pickle_loads :: "'t pickled \<Rightarrow> 't pyobj" where
  "pickle_loads (Pickled obj) = obj"

text \<open>
  One store file: the committed key/value pairs, one pair per key; the order of the list
  plays no role. \<open>txn.put(k, v); txn.commit()\<close> overwrites the value of an existing key
  and adds a new key otherwise.
\<close>

type_synonym 't store = "(string \<times> 't pickled) list"

definition txn_put :: "string \<Rightarrow> 't pickled \<Rightarrow> 't store \<Rightarrow> 't store" where
  "txn_put k v db = AList.update k v db"

subsection \<open>\<open>f"{idx}".encode("ascii")\<close>: the decimal digits of a non-negative integer\<close>

definition digit_char :: "nat \<Rightarrow> char" where
  "digit_char d = char_of (48 + d)"

fun str_nat :: "nat \<Rightarrow> string" where
  "str_nat n = (if n < 10 then [digit_char n] else str_nat (n div 10) @ [digit_char (n mod 10)])"

declare str_nat.simps [simp del]

definition key_of :: "nat \<Rightarrow> string" where
  "key_of idx = str_nat idx"

text \<open>Reading a decimal string back, used to show that distinct indices give distinct keys.\<close>

definition digit_val :: "char \<Rightarrow> nat" where
  "digit_val c = of_char c - 48"

definition nat_of_str :: "string \<Rightarrow> nat" where
  "nat_of_str s = foldl (\<lambda>acc c. 10 * acc + digit_val c) 0 s"

definition is_digit :: "char \<Rightarrow> bool" where
  "is_digit c = (48 \<le> (of_char c :: nat) \<and> (of_char c :: nat) \<le> 57)"

subsection \<open>The external libraries the cells call\<close>

text \<open>
  The notebook only calls into the atomic-simulation toolkit and the graph converter; their
  code is not part of the repository, so they are parameters of the model. \<open>'a\<close> is the
  type of an \<open>ase.Atoms\<close> image.
  \<^item> \<open>ase_io_read path\<close> is \<open>ase.io.read(path, ":")\<close>: every image of a trajectory file, or
    the exception the library raises (for a missing file, say);
  \<^item> \<open>get_tags a\<close> is \<open>a.get_tags()\<close>;
  \<^item> \<open>a2g_convert a\<close> is the graph record \<open>AtomsToGraphs\<close> builds for one image;
    \<open>a2g.convert_all(images)\<close> converts each image of the list in turn.
\<close>

record ('a, 't) libs =
  ase_io_read :: "string \<Rightarrow> error + 'a list"
  get_tags :: "'a \<Rightarrow> int list"
  a2g_convert :: "'a \<Rightarrow> 't data"

definition convert_all :: "('a, 't) libs \<Rightarrow> 'a list \<Rightarrow> 't data list" where
  "convert_all L images = map (a2g_convert L) images"

text \<open>
  How a cell ends: it runs to its last statement, or an exception aborts it. Either way the
  state reached is kept, since every \<open>txn.commit()\<close> before the exception has already
  changed the store.
\<close>

datatype 's outcome = Completed 's | Raised error 's

fun final :: "'s outcome \<Rightarrow> 's" where
  "final (Completed s) = s"
| "final (Raised e s) = s"

text \<open>
  The names bound at the top level of the notebook by its cells (imports, assignments, the
  one \<open>def\<close>, loop variables), in the order of their first binding. \<open>traj_path\<close> is only the
  parameter of \<open>read_trajectory_extract_features\<close>, local to that function, and it is not a
  builtin either.
\<close>

definition creation_globals :: "string list" where
  "creation_globals =
    [''AtomsToGraphs'', ''SinglePointLmdbDataset'', ''TrajectoryLmdbDataset'', ''ase'',
     ''bulk'', ''fcc100'', ''add_adsorbate'', ''molecule'', ''FixAtoms'', ''EMT'', ''BFGS'',
     ''plt'', ''lmdb'', ''pickle'', ''tqdm'', ''torch'', ''os'',
     ''adslab'', ''ads'', ''cons'', ''dyn'', ''raw_data'', ''a2g'', ''db'',
     ''read_trajectory_extract_features'',
     ''system_paths'', ''idx'', ''system'', ''data_objects'', ''initial_struc'',
     ''relaxed_struc'', ''txn'', ''dataset'', ''tags'', ''fid'', ''data'', ''energies'']"

subsection \<open>The IS2RE cell: one record per system, in a single store file\<close>

text \<open>
  \<^verbatim>\<open>
  def read_trajectory_extract_features(a2g, traj_path):
      traj = ase.io.read(traj_path, ":")
      tags = traj[0].get_tags()
      images = [traj[0], traj[-1]]
      data_objects = a2g.convert_all(images, disable_tqdm=True)
      data_objects[0].tags = torch.LongTensor(tags)
      data_objects[1].tags = torch.LongTensor(tags)
      return data_objects
  \<close>
  \<open>traj[0]\<close> raises \<open>IndexError\<close> on an empty trajectory.
\<close>

definition read_trajectory_extract_features ::
  "('a, 't) libs \<Rightarrow> string \<Rightarrow> error + 't data list" where
  "read_trajectory_extract_features L traj_path =
    (case ase_io_read L traj_path of
       Inl e \<Rightarrow> Inl e
     | Inr traj \<Rightarrow>
        (case traj of
           [] \<Rightarrow> Inl IndexError
         | a # _ \<Rightarrow>
            (let tgs = get_tags L a;
                 images = [a, last traj];
                 data_objects = convert_all L images
             in Inr (map (\<lambda>d. d\<lparr>tags := Some tgs\<rparr>) data_objects))))"

text \<open>
  The first half of the loop body: the record that is about to be written for \<open>system\<close>
  when the counter is \<open>idx\<close>.
  \<^verbatim>\<open>
      data_objects = read_trajectory_extract_features(a2g, system)
      initial_struc = data_objects[0]
      relaxed_struc = data_objects[1]
      initial_struc.y_init = initial_struc.y
      del initial_struc.y
      initial_struc.y_relaxed = relaxed_struc.y
      initial_struc.pos_relaxed = relaxed_struc.pos
      initial_struc.sid = idx
  \<close>
\<close>

definition is2re_record :: "('a, 't) libs \<Rightarrow> string \<Rightarrow> nat \<Rightarrow> error + 't data" where
  "is2re_record L system i =
    (case read_trajectory_extract_features L system of
       Inl e \<Rightarrow> Inl e
     | Inr data_objects \<Rightarrow>
        (case data_objects of
           initial_struc # relaxed_struc # _ \<Rightarrow>
            Inr (initial_struc\<lparr>y_init := y initial_struc, y := None,
                   y_relaxed := y relaxed_struc,
                   pos_relaxed := Some (pos relaxed_struc), sid := Some (PyInt i)\<rparr>)
         | _ \<Rightarrow> Inl IndexError))"

text \<open>
  The state of the cell: the store behind the handle \<open>db\<close> and the counter \<open>idx\<close>.
  \<^verbatim>\<open>
  for system in system_paths:
      ...
      # no neighbor edge case check
      if initial_struc.edge_index.shape[1] == 0:
          print("no neighbors", traj_path)
          continue
      # Write to LMDB
      txn = db.begin(write=True)
      txn.put(f"{idx}".encode("ascii"), pickle.dumps(initial_struc, protocol=-1))
      txn.commit()
      db.sync()
      idx += 1
  \<close>
  \<open>g\<close> is the list of names bound at the top level when the cell runs. The arguments of
  \<open>print\<close> are evaluated before the call, so the guard branch first looks \<open>traj_path\<close> up:
  an unbound name raises \<open>NameError\<close>; a bound one is printed (output is not part of the
  state) and \<open>continue\<close> goes to the next system.
\<close>

record 't wstate =
  db :: "'t store"
  idx :: nat

fun is2re_loop ::
  "string list \<Rightarrow> ('a, 't) libs \<Rightarrow> string list \<Rightarrow> 't wstate \<Rightarrow> 't wstate outcome" where
  "is2re_loop g L [] st = Completed st"
| "is2re_loop g L (system # rest) st =
    (case is2re_record L system (idx st) of
       Inl e \<Rightarrow> Raised e st
     | Inr initial_struc \<Rightarrow>
        if length (edge_index initial_struc) = 0 then
          (if ''traj_path'' \<in> set g then is2re_loop g L rest st
           else Raised (NameError ''traj_path'') st)
        else
          is2re_loop g L rest
            (st\<lparr>db := txn_put (key_of (idx st)) (pickle_dumps (DataObj initial_struc)) (db st),
                idx := idx st + 1\<rparr>))"

text \<open>The cell: \<open>system_paths = ["CuCO_adslab.traj"]; idx = 0\<close>, then the loop.\<close>

definition system_paths :: "string list" where
  "system_paths = [''CuCO_adslab.traj'']"

definition is2re_cell ::
  "string list \<Rightarrow> ('a, 't) libs \<Rightarrow> string list \<Rightarrow> 't store \<Rightarrow> 't wstate outcome" where
  "is2re_cell g L systems db0 = is2re_loop g L systems \<lparr>db = db0, idx = 0\<rparr>"

subsection \<open>The S2EF cell: one record per frame, then the \<open>length\<close> key\<close>

text \<open>
  \<^verbatim>\<open>
      data.sid = torch.LongTensor([0])
      data.fid = torch.LongTensor([fid])
      data.tags = torch.LongTensor(tags)
  \<close>
\<close>

definition s2ef_record :: "int list \<Rightarrow> nat \<Rightarrow> 't data \<Rightarrow> 't data" where
  "s2ef_record tgs i d = d\<lparr>sid := Some (LongTensor [0]), fid := Some (LongTensor [i]), tags := Some tgs\<rparr>"

text \<open>
  \<^verbatim>\<open>
  for fid, data in tqdm(enumerate(data_objects), total=len(data_objects)):
      ...
      # no neighbor edge case check
      if data.edge_index.shape[1] == 0:
          print("no neighbors", traj_path)
          continue
      txn = db.begin(write=True)
      txn.put(f"{fid}".encode("ascii"), pickle.dumps(data, protocol=-1))
      txn.commit()
  \<close>
  \<open>tqdm\<close> only reports progress; the loop runs over \<open>enumerate(data_objects)\<close>.
\<close>

fun s2ef_loop ::
  "string list \<Rightarrow> int list \<Rightarrow> (nat \<times> 't data) list \<Rightarrow> 't store \<Rightarrow> 't store outcome" where
  "s2ef_loop g tgs [] st = Completed st"
| "s2ef_loop g tgs ((i, d) # rest) st =
    (let data = s2ef_record tgs i d in
     if length (edge_index data) = 0 then
       (if ''traj_path'' \<in> set g then s2ef_loop g tgs rest st
        else Raised (NameError ''traj_path'') st)
     else s2ef_loop g tgs rest (txn_put (key_of i) (pickle_dumps (DataObj data)) st))"

text \<open>
  The whole cell. \<open>raw_data[0]\<close> raises \<open>IndexError\<close> on an empty list.
  \<^verbatim>\<open>
  tags = raw_data[0].get_tags()
  data_objects = a2g.convert_all(raw_data, disable_tqdm=True)
  for fid, data in tqdm(enumerate(data_objects), total=len(data_objects)):
      ...
  txn = db.begin(write=True)
  txn.put(f"length".encode("ascii"), pickle.dumps(len(data_objects), protocol=-1))
  txn.commit()
  \<close>
\<close>

definition s2ef_cell ::
  "string list \<Rightarrow> ('a, 't) libs \<Rightarrow> 'a list \<Rightarrow> 't store \<Rightarrow> 't store outcome" where
  "s2ef_cell g L raw_data db0 =
    (case raw_data of
       [] \<Rightarrow> Raised IndexError db0
     | a # _ \<Rightarrow>
        (let tgs = get_tags L a;
             data_objects = convert_all L raw_data
         in case s2ef_loop g tgs (enumerate 0 data_objects) db0 of
              Raised e st \<Rightarrow> Raised e st
            | Completed st \<Rightarrow>
                Completed (txn_put ''length'' (pickle_dumps (IntObj (length data_objects))) st)))"


subsection \<open>What an entry of a store is\<close>

text \<open>
  An entry as the specification describes the records of a store: the value unpickles to a
  graph record, and the key is the decimal text of that record's integer index, here its
  frame index \<open>fid\<close>.
\<close>

fun s2ef_entry :: "string \<times> 't pickled \<Rightarrow> bool" where
  "s2ef_entry (k, v) =
    (case pickle_loads v of
       DataObj r \<Rightarrow> (case fid r of Some (LongTensor [i]) \<Rightarrow> k = key_of i | _ \<Rightarrow> False)
     | IntObj n \<Rightarrow> False)"

text \<open>The entry the S2EF loop writes for frame \<open>i\<close> with converted record \<open>d\<close>.\<close>

definition s2ef_put :: "int list \<Rightarrow> nat \<times> 't data \<Rightarrow> string \<times> 't pickled" where
  "s2ef_put tgs p = (key_of (fst p), pickle_dumps (DataObj (s2ef_record tgs (fst p) (snd p))))"

text \<open>The invariant of the IS2RE loop: the store holds the keys \<open>0 .. idx - 1\<close>, in this order.\<close>

definition is2re_inv :: "'t wstate \<Rightarrow> bool" where
  "is2re_inv st \<longleftrightarrow>
     map fst (db st) = map key_of [0..<idx st] \<and>
     (\<forall>i<idx st. \<exists>r. db st ! i = (key_of i, pickle_dumps (DataObj r)) \<and> sid r = Some (PyInt i))"

subsection \<open>The writing loops as linear scripts\<close>

text \<open>
  The two loops as the specification describes the notebooks' cells: linear scripts with no
  edge-case policy, that is, the same statements without the
  \<open>if ... edge_index.shape[1] == 0\<close> check. They are compared with the loops of the source.
\<close>

fun is2re_loop_linear :: "('a, 't) libs \<Rightarrow> string list \<Rightarrow> 't wstate \<Rightarrow> 't wstate outcome" where
  "is2re_loop_linear L [] st = Completed st"
| "is2re_loop_linear L (system # rest) st =
    (case is2re_record L system (idx st) of
       Inl e \<Rightarrow> Raised e st
     | Inr initial_struc \<Rightarrow>
        is2re_loop_linear L rest
          (st\<lparr>db := txn_put (key_of (idx st)) (pickle_dumps (DataObj initial_struc)) (db st),
              idx := idx st + 1\<rparr>))"

fun s2ef_loop_linear :: "int list \<Rightarrow> (nat \<times> 't data) list \<Rightarrow> 't store \<Rightarrow> 't store outcome" where
  "s2ef_loop_linear tgs [] st = Completed st"
| "s2ef_loop_linear tgs ((i, d) # rest) st =
    s2ef_loop_linear tgs rest
      (txn_put (key_of i) (pickle_dumps (DataObj (s2ef_record tgs i d))) st)"

subsection \<open>Store files, and reading a dataset back\<close>

text \<open>
  The store files on disk, by path. \<open>lmdb.open(path, subdir=False, ...)\<close> opens the file at
  \<open>path\<close> and creates an empty one when there is none; committed transactions are in the
  file when \<open>db.close()\<close> returns.
\<close>

type_synonym 't fs = "(string \<times> 't store) list"

definition lmdb_open :: "'t fs \<Rightarrow> string \<Rightarrow> 't store" where
  "lmdb_open files path = (case map_of files path of None \<Rightarrow> [] | Some s \<Rightarrow> s)"

definition lmdb_close :: "'t fs \<Rightarrow> string \<Rightarrow> 't store \<Rightarrow> 't fs" where
  "lmdb_close files path s = AList.update path s files"

text \<open>
  The IS2RE demo, cells \<open>binding-grain\<close> and \<open>useful-exposure\<close>:
  \<open>db = lmdb.open("sample_CuCO.lmdb", ...)\<close>, the writing cell, \<open>db.close()\<close>. An exception
  leaves the committed records in the file.
\<close>

definition is2re_demo ::
  "string list \<Rightarrow> ('a, 't) libs \<Rightarrow> string list \<Rightarrow> 't fs \<Rightarrow> 't fs outcome" where
  "is2re_demo g L systems files =
    (case is2re_cell g L systems (lmdb_open files ''sample_CuCO.lmdb'') of
       Raised e st \<Rightarrow> Raised e (lmdb_close files ''sample_CuCO.lmdb'' (db st))
     | Completed st \<Rightarrow> Completed (lmdb_close files ''sample_CuCO.lmdb'' (db st)))"

text \<open>
  The S2EF demo, cells \<open>addressed-underground\<close> and \<open>adjustable-environment\<close>:
  \<open>os.makedirs("s2ef", exist_ok=True); db = lmdb.open("s2ef/sample_CuCO.lmdb", ...)\<close>, the
  writing cell, \<open>db.sync(); db.close()\<close>.
\<close>

definition s2ef_demo ::
  "string list \<Rightarrow> ('a, 't) libs \<Rightarrow> 'a list \<Rightarrow> 't fs \<Rightarrow> 't fs outcome" where
  "s2ef_demo g L raw_data files =
    (case s2ef_cell g L raw_data (lmdb_open files ''s2ef/sample_CuCO.lmdb'') of
       Raised e st \<Rightarrow> Raised e (lmdb_close files ''s2ef/sample_CuCO.lmdb'' st)
     | Completed st \<Rightarrow> Completed (lmdb_close files ''s2ef/sample_CuCO.lmdb'' st))"

text \<open>
  Modelled from the spec: \<open>SinglePointLmdbDataset\<close>, the external framework's reader of a
  single store file, whose code is not in the repository. The specification says that
  records are addressed by string-encoded integer keys and hold serialized objects, and the
  notebook that the dataset expects the data in a single file. So the dataset over the file
  at \<open>src\<close> has one item per entry of the file, and item \<open>i\<close> is the unpickled value under the
  decimal key of \<open>i\<close>.
\<close>

definition SinglePointLmdbDataset :: "'t fs \<Rightarrow> string \<Rightarrow> error + 't store" where
  "SinglePointLmdbDataset files src =
    (case map_of files src of
       None \<Rightarrow> Inl (LibraryError ''no such store'')
     | Some s \<Rightarrow> Inr s)"

definition single_point_len :: "'t store \<Rightarrow> nat" where
  "single_point_len s = length s"

definition single_point_getitem :: "'t store \<Rightarrow> nat \<Rightarrow> error + 't pyobj" where
  "single_point_getitem s i =
    (if i < length s then
       (case map_of s (key_of i) of
          None \<Rightarrow> Inl (LibraryError ''no such key'')
        | Some v \<Rightarrow> Inr (pickle_loads v))
     else Inl IndexError)"

text \<open>
  Modelled from the spec: \<open>TrajectoryLmdbDataset\<close>, the external framework's reader of a
  directory of store files (the sharded layout), whose code is not in the repository. The
  notebook says that the dataset expects a directory of store files and that a \<open>length\<close>
  key must be added to each file. So the dataset over the directory \<open>src\<close> takes every file
  under it, reads the number of items of each from its \<open>length\<close> key, and numbers the
  items of the files consecutively; an item is the unpickled value under the decimal key
  of its position in its own file.
\<close>

definition in_dir :: "string \<Rightarrow> string \<Rightarrow> bool" where
  "in_dir src path = (take (length src) path = src)"

definition shard_length :: "'t store \<Rightarrow> error + nat" where
  "shard_length s =
    (case map_of s ''length'' of
       None \<Rightarrow> Inl (LibraryError ''no length key'')
     | Some v \<Rightarrow>
        (case pickle_loads v of
           IntObj n \<Rightarrow> Inr n
         | DataObj r \<Rightarrow> Inl (LibraryError ''length is not an integer'')))"

fun open_shards :: "'t store list \<Rightarrow> error + ('t store \<times> nat) list" where
  "open_shards [] = Inr []"
| "open_shards (s # rest) =
    (case shard_length s of
       Inl e \<Rightarrow> Inl e
     | Inr n \<Rightarrow>
        (case open_shards rest of
           Inl e \<Rightarrow> Inl e
         | Inr shards \<Rightarrow> Inr ((s, n) # shards)))"

definition TrajectoryLmdbDataset :: "'t fs \<Rightarrow> string \<Rightarrow> error + ('t store \<times> nat) list" where
  "TrajectoryLmdbDataset files src = open_shards (map snd (filter (\<lambda>f. in_dir src (fst f)) files))"

definition trajectory_len :: "('t store \<times> nat) list \<Rightarrow> nat" where
  "trajectory_len shards = sum_list (map snd shards)"

fun trajectory_getitem :: "('t store \<times> nat) list \<Rightarrow> nat \<Rightarrow> error + 't pyobj" where
  "trajectory_getitem [] i = Inl IndexError"
| "trajectory_getitem ((s, n) # rest) i =
    (if i < n then
       (case map_of s (key_of i) of
          None \<Rightarrow> Inl (LibraryError ''no such key'')
        | Some v \<Rightarrow> Inr (pickle_loads v))
     else trajectory_getitem rest (i - n))"

subsection \<open>Concrete library behaviours, used to run the cells\<close>

text \<open>
  A trajectory of three images, numbered \<open>0, 1, 2\<close>, in the file the notebook reads. With
  \<open>demo_libs\<close> every image has two edges; with \<open>sparse_libs\<close> only image \<open>1\<close> has edges,
  the others have no neighbour within the cutoff.
\<close>

definition demo_libs :: "(nat, int) libs" where
  "demo_libs =
    \<lparr>ase_io_read = (\<lambda>p. if p = ''CuCO_adslab.traj'' then Inr [0, 1, 2]
                          else Inl (LibraryError ''FileNotFoundError'')),
     get_tags = (\<lambda>a. [3, 2, 1, 0, 0]),
     a2g_convert = (\<lambda>a. \<lparr>pos = int a, edge_index = [(0, 1), (1, 0)], y = Some (- int a),
                          tags = None, sid = None, fid = None, y_init = None,
                          y_relaxed = None, pos_relaxed = None\<rparr>)\<rparr>"

definition sparse_libs :: "(nat, int) libs" where
  "sparse_libs =
    \<lparr>ase_io_read = (\<lambda>p. if p = ''CuCO_adslab.traj'' then Inr [0, 1, 2]
                          else Inl (LibraryError ''FileNotFoundError'')),
     get_tags = (\<lambda>a. [3, 2, 1, 0, 0]),
     a2g_convert = (\<lambda>a. \<lparr>pos = int a,
                          edge_index = (if a = 1 then [(0, 1), (1, 0)] else []),
                          y = Some (- int a),
                          tags = None, sid = None, fid = None, y_init = None,
                          y_relaxed = None, pos_relaxed = None\<rparr>)\<rparr>"

text \<open>Two converted frames: one with two edges, one whose atoms have no neighbour.\<close>

definition frame_with_edges :: "int data" where
  "frame_with_edges =
    \<lparr>pos = 1, edge_index = [(0, 1), (1, 0)], y = Some (- 1), tags = None, sid = None,
     fid = None, y_init = None, y_relaxed = None, pos_relaxed = None\<rparr>"

definition frame_isolated :: "int data" where
  "frame_isolated =
    \<lparr>pos = 0, edge_index = [], y = Some 0, tags = None, sid = None,
     fid = None, y_init = None, y_relaxed = None, pos_relaxed = None\<rparr>"

text \<open>
  A disk on which \<open>sample_CuCO.lmdb\<close> already exists and holds a record under the key
  \<open>7\<close>, left by an earlier, longer run.
\<close>

definition stale_disk :: "int fs" where
  "stale_disk = [(''sample_CuCO.lmdb'', [(''7'', pickle_dumps (DataObj frame_with_edges))])]"

text \<open>
  A disk on which another store file lies under \<open>s2ef/\<close> already, holding one frame and
  its \<open>length\<close> key.
\<close>

definition old_shard_disk :: "int fs" where
  "old_shard_disk =
    [(''s2ef/earlier.lmdb'',
      [(''0'', pickle_dumps (DataObj frame_with_edges)),
       (''length'', pickle_dumps (IntObj 1))])]"

section \<open>The shell cells of the notebooks: downloads\<close>

text \<open>
  What the shell cells of a notebook (the \<open>!\<close> lines and the \<open>%%bash\<close> cells) act on: the files
  present below the directory in which the notebook runs, and the URLs requested from the
  network, in order. The Python cells call local library functions only; none of them makes a
  request or creates one of the files that a download command tests, so a notebook is
  modelled by its shell cells.
\<close>

record world =
  on_disk :: "string list"
  fetched :: "string list"

text \<open>
  \<open>wget -q [-nc] URL [-O out]\<close>, with \<open>out\<close> the path of the output file. With \<open>-nc\<close>
  (no-clobber) nothing is requested when the output file is already there; without it the
  file is fetched and written anew.
\<close>

definition wget :: "bool \<Rightarrow> string \<Rightarrow> string \<Rightarrow> world \<Rightarrow> world" where
  "wget nc url out w =
    (if nc \<and> out \<in> set (on_disk w) then w
     else w\<lparr>on_disk := List.insert out (on_disk w), fetched := fetched w @ [url]\<rparr>)"

text \<open>\<open>mkdir d\<close>: creates the directory; when it exists the command fails and the cell goes on.\<close>

definition mkdir :: "string \<Rightarrow> world \<Rightarrow> world" where
  "mkdir d w = w\<lparr>on_disk := List.insert d (on_disk w)\<rparr>"

text \<open>
  \<open>tar -xzvf archive\<close> run in directory \<open>cwd\<close>: unpacks the members of the archive, whose
  names are a parameter; it fails, unpacking nothing, when the archive is missing.
\<close>

definition tar_xzvf :: "string \<Rightarrow> string \<Rightarrow> string list \<Rightarrow> world \<Rightarrow> world" where
  "tar_xzvf cwd archive members w =
    (if cwd @ archive \<in> set (on_disk w)
     then w\<lparr>on_disk := fold List.insert (map (\<lambda>m. cwd @ m) members) (on_disk w)\<rparr>
     else w)"

definition rm :: "string \<Rightarrow> world \<Rightarrow> world" where
  "rm f w = w\<lparr>on_disk := removeAll f (on_disk w)\<rparr>"

text \<open>
  The notebooks, named by their place in the table of contents. \<open>ase_calculator_demo\<close>
  (\<^verbatim>\<open>src/unnamed/part_002\<close>):
  \<^verbatim>\<open>!wget -q -nc https://dl.fbaipublicfiles.com/opencatalystproject/models/2021_08/s2ef/gemnet_t_direct_h512_all.pt\<close>
\<close>

definition gemnet_t_url :: string where
  "gemnet_t_url =
    ''https://dl.fbaipublicfiles.com/opencatalystproject/models/2021_08/s2ef/gemnet_t_direct_h512_all.pt''"

definition ase_calculator_demo :: "world \<Rightarrow> world" where
  "ase_calculator_demo w = wget True gemnet_t_url ''gemnet_t_direct_h512_all.pt'' w"

text \<open>
  \<open>ase_calculator_demo_oc22\<close>:
  \<^verbatim>\<open>!wget -q -nc https://dl.fbaipublicfiles.com/opencatalystproject/models/2022_09/oc22/s2ef/gnoc_oc22_oc20_all_s2ef.pt\<close>
\<close>

definition gnoc_url :: string where
  "gnoc_url =
    ''https://dl.fbaipublicfiles.com/opencatalystproject/models/2022_09/oc22/s2ef/gnoc_oc22_oc20_all_s2ef.pt''"

definition ase_calculator_demo_oc22 :: "world \<Rightarrow> world" where
  "ase_calculator_demo_oc22 w = wget True gnoc_url ''gnoc_oc22_oc20_all_s2ef.pt'' w"

text \<open>
  \<open>interacting_with_datasets\<close>:
  \<^verbatim>\<open>
  %%bash
  mkdir data
  cd data
  wget -q http://dl.fbaipublicfiles.com/opencatalystproject/data/tutorial_data.tar.gz -O tutorial_data.tar.gz
  tar -xzvf tutorial_data.tar.gz
  rm tutorial_data.tar.gz
  \<close>
\<close>

definition tutorial_data_url :: string where
  "tutorial_data_url = ''http://dl.fbaipublicfiles.com/opencatalystproject/data/tutorial_data.tar.gz''"

definition interacting_with_datasets :: "string list \<Rightarrow> world \<Rightarrow> world" where
  "interacting_with_datasets members w =
    rm ''data/tutorial_data.tar.gz''
      (tar_xzvf ''data/'' ''tutorial_data.tar.gz'' members
        (wget False tutorial_data_url ''data/tutorial_data.tar.gz''
          (mkdir ''data'' w)))"

text \<open>
  \<open>s2ef\<close> (\<^verbatim>\<open>src/unnamed/part_003\<close>) and \<open>is2re\<close> (\<^verbatim>\<open>src/unnamed/part_005\<close>), the
  same cell in both:
  \<^verbatim>\<open>
  %%bash
  mkdir data
  cd data
  wget -q -nc http://dl.fbaipublicfiles.com/opencatalystproject/data/tutorial_data.tar.gz -O tutorial_data.tar.gz
  tar -xzvf tutorial_data.tar.gz
  \<close>
\<close>

definition s2ef :: "string list \<Rightarrow> world \<Rightarrow> world" where
  "s2ef members w =
    tar_xzvf ''data/'' ''tutorial_data.tar.gz'' members
      (wget True tutorial_data_url ''data/tutorial_data.tar.gz''
        (mkdir ''data'' w))"

definition is2re :: "string list \<Rightarrow> world \<Rightarrow> world" where
  "is2re members w =
    tar_xzvf ''data/'' ''tutorial_data.tar.gz'' members
      (wget True tutorial_data_url ''data/tutorial_data.tar.gz''
        (mkdir ''data'' w))"

text \<open>
  \<open>relaxations\<close> (\<^verbatim>\<open>src/unnamed/part_001\<close>), \<open>data_preprocessing\<close>,
  \<open>lmdb_dataset_creation\<close>, \<open>background\<close> and \<open>ocp_tasks\<close> (\<^verbatim>\<open>src/unnamed/part_004\<close>)
  have no shell cell.
\<close>

definition relaxations :: "world \<Rightarrow> world" where
  "relaxations w = w"

definition data_preprocessing :: "world \<Rightarrow> world" where
  "data_preprocessing w = w"

definition lmdb_dataset_creation :: "world \<Rightarrow> world" where
  "lmdb_dataset_creation w = w"

definition background :: "world \<Rightarrow> world" where
  "background w = w"

definition ocp_tasks :: "world \<Rightarrow> world" where
  "ocp_tasks w = w"

text \<open>Every notebook under the source tree, with the members of the data archive as parameter.\<close>

definition tutorial_notebooks :: "string list \<Rightarrow> (string \<times> (world \<Rightarrow> world)) list" where
  "tutorial_notebooks members =
    [(''background'', background),
     (''relaxations'', relaxations),
     (''ase_calculator_demo'', ase_calculator_demo),
     (''ase_calculator_demo_oc22'', ase_calculator_demo_oc22),
     (''interacting_with_datasets'', interacting_with_datasets members),
     (''ocp_tasks'', ocp_tasks),
     (''s2ef'', s2ef members),
     (''is2re'', is2re members),
     (''data_preprocessing'', data_preprocessing),
     (''lmdb_dataset_creation'', lmdb_dataset_creation)]"

text \<open>A fresh checkout: no file yet, nothing requested.\<close>

definition fresh :: world where
  "fresh = \<lparr>on_disk = [], fetched = []\<rparr>"

text \<open>The claim "this notebook downloads when it runs", on a fresh checkout.\<close>

definition downloads :: "(world \<Rightarrow> world) \<Rightarrow> bool" where
  "downloads nb \<longleftrightarrow> fetched (nb fresh) \<noteq> []"

section \<open>The table of contents\<close>

text \<open>
  The file \<^verbatim>\<open>_toc.yml\<close>:
  \<^verbatim>\<open>
  format: jb-book
  root: intro
  parts:
  - caption: Background
    chapters:
    - file: notes/background/background
    ...
  \<close>
  A part has a caption and its chapters, each chapter a \<open>file\<close>.
\<close>

record part =
  caption :: string
  chapters :: "string list"

record toc =
  toc_format :: string
  toc_root :: string
  parts :: "part list"

definition site_toc :: toc where
  "site_toc =
    \<lparr>toc_format = ''jb-book'',
     toc_root = ''intro'',
     parts =
      [\<lparr>caption = ''Background'',
        chapters = [''notes/background/background'',
                    ''notes/background/extra_resources'',
                    ''notes/background/install'']\<rparr>,
       \<lparr>caption = ''Quick-start using pre-trained models'',
        chapters = [''notes/pretrained_models/relaxations'',
                    ''notes/pretrained_models/ase_calculator_demo'',
                    ''notes/pretrained_models/ase_calculator_demo_oc22'']\<rparr>,
       \<lparr>caption = ''Using the OCP datasets'',
        chapters = [''notes/ocp_datasets/oc20_overview'',
                    ''notes/ocp_datasets/oc22_overview'',
                    ''notes/ocp_datasets/interacting_with_datasets'']\<rparr>,
       \<lparr>caption = ''Training ML models for OCP tasks'',
        chapters = [''notes/model_training/ocp_tasks'',
                    ''notes/model_training/s2ef'',
                    ''notes/model_training/is2rs'',
                    ''notes/model_training/is2re'']\<rparr>,
       \<lparr>caption = ''Using OCP with your own datasets'',
        chapters = [''notes/custom_datasets/data_preprocessing'',
                    ''notes/custom_datasets/lmdb_dataset_creation'']\<rparr>]\<rparr>"

text \<open>
  The reading sequence a book-format table of contents declares: the root document, then
  the chapters of each part, part after part.
\<close>

definition reading_sequence :: "toc \<Rightarrow> string list" where
  "reading_sequence t = toc_root t # concat (map chapters (parts t))"

text \<open>The positions at which a document stands in a sequence.\<close>

definition positions :: "string \<Rightarrow> string list \<Rightarrow> nat list" where
  "positions d ds = filter (\<lambda>i. ds ! i = d) [0..<length ds]"

section \<open>The deployment workflow\<close>

text \<open>
  The workflow file (\<^verbatim>\<open>src/unnamed/part_000\<close>, the workflow named \<open>deploy\<close>), as
  data: its triggers (event and branches), and the steps of its one
  job \<open>build-and-deploy-book\<close>, which runs on \<open>ubuntu-latest\<close>. A step either \<open>uses\<close> an
  action, with arguments, or \<open>run\<close>s the lines of a script.
\<close>

record step =
  step_name :: "string option"
  uses :: "string option"
  with_args :: "(string \<times> string) list"
  shell :: "string option"
  run :: "string list"














section \<open>The training notebooks: the model configuration and its copy\<close>

text \<open>
  The configuration values of the notebooks \<open>s2ef\<close> (\<^verbatim>\<open>src/unnamed/part_003\<close>) and
  \<open>is2re\<close> (\<^verbatim>\<open>src/unnamed/part_005\<close>): strings, integers,
  decimal floats (mantissa and exponent of ten), booleans, dictionaries and lists.
\<close>

datatype pyval =
    PStr string
  | PInt int
  | PFloat int int
  | PBool bool
  | PDict "(string \<times> pyval) list"
  | PList "pyval list"

text \<open>
  The objects of the notebook live in a heap, a list of objects addressed by position; a
  variable holds an address. A nested dictionary is kept inside the value of its owner: the
  configurations are literals, no part of one is shared with another object. The state of
  the notebook is the heap and the addresses bound to \<open>task\<close>, \<open>model\<close>, \<open>optimizer\<close> and
  \<open>dataset\<close>.
\<close>

record nbstate =
  heap :: "pyval list"
  task :: nat
  model :: nat
  optimizer :: nat
  dataset :: nat

text \<open>
  \<open>copy.deepcopy(x)\<close>: a new object with the value of \<open>x\<close>, at a fresh address, sharing
  nothing with \<open>x\<close>.
\<close>

definition deepcopy :: "pyval list \<Rightarrow> nat \<Rightarrow> pyval list \<times> nat" where
  "deepcopy h a = (h @ [h ! a], length h)"

text \<open>
  The trainer is the external framework's. Its constructor and its methods are parameters:
  functions from the heap and the addresses of the objects the trainer was given to the new
  heap. What is assumed of them is that they respect the frame: an object that is not among
  the ones given stays where it is, with its value.
\<close>

type_synonym external = "pyval list \<Rightarrow> nat list \<Rightarrow> pyval list"

definition respects_frame :: "external \<Rightarrow> bool" where
  "respects_frame f \<longleftrightarrow>
     (\<forall>h args a. a < length h \<longrightarrow> a \<notin> set args \<longrightarrow> a < length (f h args) \<and> f h args ! a = h ! a)"

text \<open>
  The cells that create and use the first trainer:
  \<^verbatim>\<open>
  trainer = ForcesTrainer(
      task=task,
      model=copy.deepcopy(model), # copied for later use, not necessary in practice.
      dataset=dataset,
      optimizer=optimizer,
      ...)
  trainer.train()
  \<close>
  (\<open>EnergyTrainer\<close> and \<open>energy_trainer\<close> in the notebook \<open>is2re\<close>).
\<close>

definition create_and_train :: "external \<Rightarrow> external \<Rightarrow> nbstate \<Rightarrow> nbstate" where
  "create_and_train init train s =
    (let (h1, c) = deepcopy (heap s) (model s);
         args = [task s, c, dataset s, optimizer s];
         h2 = init h1 args;
         h3 = train h2 args
     in s\<lparr>heap := h3\<rparr>)"

text \<open>\<open>dataset.append({'src': val_src})\<close>: the list bound to \<open>dataset\<close> grows in place.\<close>

definition append_test_set :: "pyval \<Rightarrow> nbstate \<Rightarrow> nbstate" where
  "append_test_set v s =
    s\<lparr>heap := (heap s)[dataset s :=
          (case heap s ! dataset s of PList xs \<Rightarrow> PList (xs @ [v]) | other \<Rightarrow> other)]\<rparr>"

text \<open>
  The configuration the second trainer receives:
  \<open>pretrained_trainer = ForcesTrainer(task=task, model=model, ...)\<close> is given the object
  bound to \<open>model\<close>, as it is after the first trainer was created and trained and the test
  set appended.
\<close>

definition second_trainer_model :: "external \<Rightarrow> external \<Rightarrow> pyval \<Rightarrow> nbstate \<Rightarrow> pyval" where
  "second_trainer_model init train v s =
    (let s' = append_test_set v (create_and_train init train s) in heap s' ! model s')"

text \<open>The same cells had the first trainer been given \<open>model\<close> itself.\<close>

definition second_trainer_model_uncopied :: "external \<Rightarrow> external \<Rightarrow> pyval \<Rightarrow> nbstate \<Rightarrow> pyval" where
  "second_trainer_model_uncopied init train v s =
    (let args = [task s, model s, dataset s, optimizer s];
         s' = append_test_set v (s\<lparr>heap := train (init (heap s) args) args\<rparr>)
     in heap s' ! model s')"

text \<open>The variables are bound to objects of the heap, and \<open>model\<close> to one of its own.\<close>

definition well_formed :: "nbstate \<Rightarrow> bool" where
  "well_formed s \<longleftrightarrow>
     task s < length (heap s) \<and> model s < length (heap s) \<and>
     optimizer s < length (heap s) \<and> dataset s < length (heap s) \<and>
     model s \<noteq> task s \<and> model s \<noteq> optimizer s \<and> model s \<noteq> dataset s"

text \<open>The configuration cell of the notebook \<open>s2ef\<close>.\<close>

definition s2ef_task :: pyval where
  "s2ef_task = PDict
    [(''dataset'', PStr ''trajectory_lmdb''),
     (''description'', PStr ''Regressing to energies and forces for DFT trajectories from OCP''),
     (''type'', PStr ''regression''),
     (''metric'', PStr ''mae''),
     (''labels'', PList [PStr ''potential energy'']),
     (''grad_input'', PStr ''atomic forces''),
     (''train_on_free_atoms'', PBool True),
     (''eval_on_free_atoms'', PBool True)]"

definition s2ef_model :: pyval where
  "s2ef_model = PDict
    [(''name'', PStr ''gemnet_t''),
     (''num_spherical'', PInt 7),
     (''num_radial'', PInt 128),
     (''num_blocks'', PInt 3),
     (''emb_size_atom'', PInt 512),
     (''emb_size_edge'', PInt 512),
     (''emb_size_trip'', PInt 64),
     (''emb_size_rbf'', PInt 16),
     (''emb_size_cbf'', PInt 16),
     (''emb_size_bil_trip'', PInt 64),
     (''num_before_skip'', PInt 1),
     (''num_after_skip'', PInt 2),
     (''num_concat'', PInt 1),
     (''num_atom'', PInt 3),
     (''cutoff'', PFloat 6 0),
     (''max_neighbors'', PInt 50),
     (''rbf'', PDict [(''name'', PStr ''gaussian'')]),
     (''envelope'', PDict [(''name'', PStr ''polynomial''), (''exponent'', PInt 5)]),
     (''cbf'', PDict [(''name'', PStr ''spherical_harmonics'')]),
     (''extensive'', PBool True),
     (''otf_graph'', PBool False),
     (''output_init'', PStr ''HeOrthogonal''),
     (''activation'', PStr ''silu''),
     (''scale_file'', PStr ''configs/s2ef/all/gemnet/scaling_factors/gemnet-dT.json''),
     (''regress_forces'', PBool True),
     (''direct_forces'', PBool True)]"

definition s2ef_optimizer :: pyval where
  "s2ef_optimizer = PDict
    [(''batch_size'', PInt 1),
     (''eval_batch_size'', PInt 1),
     (''num_workers'', PInt 2),
     (''lr_initial'', PFloat 5 (- 4)),
     (''optimizer'', PStr ''AdamW''),
     (''optimizer_params'', PDict [(''amsgrad'', PBool True)]),
     (''scheduler'', PStr ''ReduceLROnPlateau''),
     (''mode'', PStr ''min''),
     (''factor'', PFloat 8 (- 1)),
     (''patience'', PInt 3),
     (''max_epochs'', PInt 1),
     (''force_coefficient'', PInt 100),
     (''ema_decay'', PFloat 999 (- 3)),
     (''clip_grad_norm'', PInt 10),
     (''loss_energy'', PStr ''mae''),
     (''loss_force'', PStr ''l2mae'')]"

text \<open>\<open>mean\<close> and \<open>stdev\<close> are computed from the training set when the notebook runs.\<close>

definition s2ef_dataset :: "pyval \<Rightarrow> pyval \<Rightarrow> pyval" where
  "s2ef_dataset mean stdev = PList
    [PDict [(''src'', PStr ''data/s2ef/train_100''),
            (''normalize_labels'', PBool True),
            (''target_mean'', mean),
            (''target_std'', stdev),
            (''grad_target_mean'', PFloat 0 0),
            (''grad_target_std'', stdev)],
     PDict [(''src'', PStr ''data/s2ef/val_20'')]]"

definition s2ef_config :: "pyval \<Rightarrow> pyval \<Rightarrow> nbstate" where
  "s2ef_config mean stdev =
    \<lparr>heap = [s2ef_task, s2ef_model, s2ef_optimizer, s2ef_dataset mean stdev],
     task = 0, model = 1, optimizer = 2, dataset = 3\<rparr>"

definition s2ef_test_set :: pyval where
  "s2ef_test_set = PDict [(''src'', PStr ''data/s2ef/val_20'')]"

text \<open>The configuration cell of the notebook \<open>is2re\<close>.\<close>

definition is2re_task :: pyval where
  "is2re_task = PDict
    [(''dataset'', PStr ''single_point_lmdb''),
     (''description'', PStr ''Relaxed state energy prediction from initial structure.''),
     (''type'', PStr ''regression''),
     (''metric'', PStr ''mae''),
     (''labels'', PList [PStr ''relaxed energy''])]"

definition is2re_model :: pyval where
  "is2re_model = PDict
    [(''name'', PStr ''gemnet_t''),
     (''num_spherical'', PInt 7),
     (''num_radial'', PInt 64),
     (''num_blocks'', PInt 5),
     (''emb_size_atom'', PInt 256),
     (''emb_size_edge'', PInt 512),
     (''emb_size_trip'', PInt 64),
     (''emb_size_rbf'', PInt 16),
     (''emb_size_cbf'', PInt 16),
     (''emb_size_bil_trip'', PInt 64),
     (''num_before_skip'', PInt 1),
     (''num_after_skip'', PInt 2),
     (''num_concat'', PInt 1),
     (''num_atom'', PInt 3),
     (''cutoff'', PFloat 6 0),
     (''max_neighbors'', PInt 50),
     (''rbf'', PDict [(''name'', PStr ''gaussian'')]),
     (''envelope'', PDict [(''name'', PStr ''polynomial''), (''exponent'', PInt 5)]),
     (''cbf'', PDict [(''name'', PStr ''spherical_harmonics'')]),
     (''extensive'', PBool True),
     (''otf_graph'', PBool False),
     (''output_init'', PStr ''HeOrthogonal''),
     (''activation'', PStr ''silu''),
     (''scale_file'', PStr ''configs/s2ef/all/gemnet/scaling_factors/gemnet-dT.json''),
     (''regress_forces'', PBool False),
     (''direct_forces'', PBool False)]"

definition is2re_optimizer :: pyval where
  "is2re_optimizer = PDict
    [(''batch_size'', PInt 1),
     (''eval_batch_size'', PInt 1),
     (''num_workers'', PInt 2),
     (''lr_initial'', PFloat 1 (- 4)),
     (''optimizer'', PStr ''AdamW''),
     (''optimizer_params'', PDict [(''amsgrad'', PBool True)]),
     (''scheduler'', PStr ''ReduceLROnPlateau''),
     (''mode'', PStr ''min''),
     (''factor'', PFloat 8 (- 1)),
     (''patience'', PInt 3),
     (''max_epochs'', PInt 1),
     (''ema_decay'', PFloat 999 (- 3)),
     (''clip_grad_norm'', PInt 10),
     (''loss_energy'', PStr ''mae'')]"

definition is2re_dataset :: "pyval \<Rightarrow> pyval \<Rightarrow> pyval" where
  "is2re_dataset mean stdev = PList
    [PDict [(''src'', PStr ''data/is2re/train_100/data.lmdb''),
            (''normalize_labels'', PBool True),
            (''target_mean'', mean),
            (''target_std'', stdev)],
     PDict [(''src'', PStr ''data/is2re/val_20/data.lmdb'')]]"

definition is2re_config :: "pyval \<Rightarrow> pyval \<Rightarrow> nbstate" where
  "is2re_config mean stdev =
    \<lparr>heap = [is2re_task, is2re_model, is2re_optimizer, is2re_dataset mean stdev],
     task = 0, model = 1, optimizer = 2, dataset = 3\<rparr>"

definition is2re_test_set :: pyval where
  "is2re_test_set = PDict [(''src'', PStr ''data/is2re/val_20/data.lmdb'')]"

text \<open>
  A constructor that removes the key \<open>name\<close> from the model dictionary it is given (the
  second of its objects), and a training method that changes no object: a behaviour
  against which the copy protects.
\<close>

definition pop_name :: external where
  "pop_name h args =
    (case args of
       [t, m, d, opt] \<Rightarrow>
        h[m := (case h ! m of
                  PDict kvs \<Rightarrow> PDict (filter (\<lambda>kv. fst kv \<noteq> ''name'') kvs)
                | other \<Rightarrow> other)]
     | _ \<Rightarrow> h)"

definition no_effect :: external where
  "no_effect h args = h"

section \<open>The statements of the notebooks\<close>

text \<open>
  The statements of the code cells of the ten notebooks, by their structure. A simple
  statement is kept with the line of the notebook file on which it starts, its kind, and the
  conditions tested inside its expressions (the filters of comprehensions and the tests of
  conditional expressions). A shell line (a \<^verbatim>\<open>!\<close> line or a line of a \<^verbatim>\<open>%%bash\<close> cell) is
  kept with its words. A compound statement is kept with its line and its blocks; an \<open>if\<close>,
  a \<open>while\<close> and an \<open>assert\<close> also with the text of the test, a function definition with
  its name, a \<open>try\<close> with its body, its handlers, its \<open>else\<close> block and its \<open>finally\<close>
  block.
\<close>

datatype kind = Import | Assign | AugAssign | Delete | Expr | Return | Continue

datatype stmt =
    Simple nat kind "string list"
  | Shell nat "string list"
  | ForStmt nat "stmt list"
  | WithStmt nat "stmt list"
  | DefStmt nat string "stmt list"
  | IfStmt nat string "stmt list" "stmt list"
  | WhileStmt nat string "stmt list"
  | TryStmt nat "stmt list" "stmt list list" "stmt list" "stmt list"
  | RaiseStmt nat
  | AssertStmt nat string

type_synonym cell = "stmt list"

text \<open>
  The code cells of each notebook, in the order of the file:
  \<open>background\<close> (\<^verbatim>\<open>notes/background/background.ipynb\<close>, one empty code cell),
  \<open>relaxations\<close> (\<^verbatim>\<open>src/unnamed/part_001\<close>),
  \<open>ase_calculator_demo\<close> (\<^verbatim>\<open>src/unnamed/part_002\<close>),
  \<open>ase_calculator_demo_oc22\<close> (\<^verbatim>\<open>notes/pretrained_models/ase_calculator_demo_oc22.ipynb\<close>),
  \<open>interacting_with_datasets\<close> (\<^verbatim>\<open>notes/ocp_datasets/interacting_with_datasets.ipynb\<close>),
  \<open>ocp_tasks\<close> (\<^verbatim>\<open>src/unnamed/part_004\<close>, no code cell),
  \<open>s2ef\<close> (\<^verbatim>\<open>src/unnamed/part_003\<close>),
  \<open>is2re\<close> (\<^verbatim>\<open>src/unnamed/part_005\<close>),
  \<open>data_preprocessing\<close> (\<^verbatim>\<open>notes/custom_datasets/data_preprocessing.ipynb\<close>),
  \<open>lmdb_dataset_creation\<close> (\<^verbatim>\<open>notes/custom_datasets/lmdb_dataset_creation.ipynb\<close>).
\<close>

definition background_cells :: "cell list" where
  "background_cells =
    [[]]"

definition relaxations_cells :: "cell list" where
  "relaxations_cells =
    [[Simple 45 Import [],
      Simple 47 Import [],
      Simple 48 Import [],
      Simple 49 Import [],
      Simple 50 Import [],
      Simple 51 Import [],
      Simple 52 Import [],
      Simple 53 Import [],
      Simple 54 Import [],
      Simple 55 Import [],
      Simple 62 Assign [],
      Simple 65 Assign [],
      Simple 66 Assign [],
      Simple 67 Expr [],
      Simple 71 Assign [''atom.tag == 0''],
      Simple 72 Expr [],
      Simple 73 Expr [],
      Simple 74 Expr [],
      Simple 78 Expr [],
      Simple 80 Expr [],
      Simple 87 Assign [],
      Simple 88 Expr [],
      Simple 90 Assign [],
      Simple 93 Assign [],
      WithStmt 94
         [Simple 95 Expr []]],
     [Simple 117 Assign [],
      Simple 120 Assign []],
     [Simple 146 Import [],
      Simple 147 Import [],
      Simple 148 Import [],
      Simple 150 Assign [],
      Simple 152 Expr [],
      Simple 153 Expr []],
     [Simple 173 Import [],
      Simple 175 Import [],
      Simple 176 Import [],
      Simple 177 Import [],
      Simple 178 Import [],
      Simple 179 Import [],
      Simple 180 Import [],
      Simple 181 Import [],
      Simple 182 Import [],
      Simple 183 Import [],
      Simple 190 Assign [],
      Simple 193 Assign [],
      Simple 194 Expr [],
      Simple 197 Assign [],
      Simple 198 Assign [],
      Simple 199 Assign [],
      Simple 200 Expr [],
      Simple 204 Assign [''atom.tag == 0''],
      Simple 205 Expr [],
      Simple 206 Expr [],
      Simple 207 Expr [],
      Simple 211 Expr [],
      Simple 213 Expr [],
      Simple 220 Assign [],
      Simple 221 Expr [],
      Simple 223 Assign [],
      Simple 226 Assign [],
      WithStmt 227
         [Simple 228 Expr []]],
     [Simple 248 Import [],
      Simple 249 Import [],
      Simple 250 Import [],
      Simple 252 Assign [],
      Simple 254 Expr [],
      Simple 255 Expr []],
     [Simple 281 Import [],
      Simple 282 Import [],
      Simple 283 Import [],
      Simple 285 Assign [],
      Simple 287 Expr [],
      Simple 288 Expr []],
     [Simple 330 Assign [],
      Simple 331 Expr []],
     [Simple 357 Assign [],
      Simple 358 Expr []],
     [Simple 384 Assign [],
      Simple 385 Expr []],
     [Simple 413 Assign [],
      Simple 414 Expr []],
     [Simple 444 Assign [],
      Simple 445 Expr []],
     [Simple 462 Assign [],
      Simple 463 Assign [],
      ForStmt 464
         [Simple 465 Expr [],
          Simple 466 Expr []],
      Simple 468 Expr [],
      Simple 471 Expr [],
      Simple 474 Expr []],
     [Simple 513 Assign [],
      Simple 514 Expr []],
     [Simple 543 Assign [],
      Simple 544 Expr [],
      Simple 547 Assign [],
      Simple 548 Expr [],
      Simple 551 Expr []],
     [Simple 582 Expr []],
     [Simple 599 Expr []],
     [Simple 647 Assign [],
      Simple 648 Assign [],
      Simple 649 Expr [],
      Simple 652 Assign [],
      Simple 653 Assign [],
      Simple 654 Assign [],
      Simple 655 Expr [],
      Simple 656 Assign [''atom.tag == 0''],
      Simple 657 Expr [],
      Simple 658 Expr [],
      Simple 659 Expr [],
      Simple 660 Assign [],
      Simple 661 Expr [],
      Simple 662 Assign [],
      Simple 663 Expr [],
      Simple 666 Assign [],
      Simple 667 Expr [],
      Simple 668 Expr [],
      Simple 669 Expr [],
      Simple 670 Assign [],
      Simple 671 Expr [],
      Simple 672 Assign [],
      Simple 673 Expr [],
      Simple 676 Assign [],
      Simple 677 Expr [],
      Simple 678 Expr [],
      Simple 679 Expr [],
      Simple 680 Assign [],
      Simple 681 Expr [],
      Simple 682 Assign [],
      Simple 683 Expr [],
      Simple 686 Assign [],
      Simple 687 Expr [],
      Simple 688 Expr [],
      Simple 689 Expr [],
      Simple 690 Assign [],
      Simple 691 Expr [],
      Simple 692 Assign [],
      Simple 693 Expr [],
      Simple 696 Assign [],
      Simple 697 Expr [],
      Simple 698 Expr [],
      Simple 699 Expr [],
      Simple 700 Assign [],
      Simple 701 Expr [],
      Simple 702 Assign [],
      Simple 703 Expr [],
      Simple 705 Assign [],
      Simple 712 Assign [],
      Simple 714 Assign [],
      ForStmt 715
         [Simple 716 AugAssign []],
      Simple 718 Expr [],
      Simple 720 Assign [],
      Simple 721 Expr []],
     [Simple 753 Import [],
      Simple 754 Import [],
      Simple 756 Assign [],
      Simple 761 Assign [],
      Simple 765 Assign [],
      Simple 766 Expr []],
     []]"

definition ase_calculator_demo_cells :: "cell list" where
  "ase_calculator_demo_cells =
    [[Shell 44 [''wget'', ''-q'', ''-nc'', ''https://dl.fbaipublicfiles.com/opencatalystproject/models/2021_08/s2ef/gemnet_t_direct_h512_all.pt''],
      Simple 45 Assign []],
     [Simple 67 Import [],
      Simple 69 Import [],
      Simple 70 Import [],
      Simple 71 Import [],
      Simple 72 Import [],
      Simple 73 Import [],
      Simple 74 Import [],
      Simple 77 Assign [],
      Simple 78 Assign [],
      Simple 79 Expr [],
      Simple 80 Assign [],
      Simple 81 Assign [],
      Simple 82 Assign [],
      Simple 83 Expr [],
      Simple 84 Assign [''atom.tag == 0''],
      Simple 85 Expr [],
      Simple 86 Expr [],
      Simple 87 Expr [],
      Simple 90 Assign [],
      Simple 93 Expr [],
      Simple 95 Expr [],
      Simple 96 Assign [],
      Simple 98 Expr []],
     [Simple 116 Import [],
      Simple 117 Import [],
      Simple 118 Import [],
      Simple 121 Assign [],
      Simple 122 Assign [],
      Simple 124 Expr [],
      Simple 125 Expr []],
     [Simple 145 Import [],
      Simple 146 Import [],
      Simple 148 Assign [],
      Simple 150 Assign [],
      Simple 156 Assign [],
      Simple 157 Expr []],
     []]"

definition ase_calculator_demo_oc22_cells :: "cell list" where
  "ase_calculator_demo_oc22_cells =
    [[Shell 49 [''wget'', ''-q'', ''-nc'', ''https://dl.fbaipublicfiles.com/opencatalystproject/models/2022_09/oc22/s2ef/gnoc_oc22_oc20_all_s2ef.pt''],
      Simple 50 Assign []],
     [Simple 72 Import [],
      Simple 74 Assign []],
     [Simple 92 Import [],
      Simple 94 Import [],
      Simple 95 Import [],
      Simple 96 Import [],
      Simple 97 Import [],
      Simple 98 Import [],
      Simple 99 Import [],
      Simple 100 Import [],
      Simple 101 Import [],
      Simple 102 Import [],
      Simple 109 Assign [],
      Simple 112 Assign [],
      Simple 113 Expr [],
      Simple 116 Assign [],
      Simple 117 Assign [],
      Simple 118 Assign [],
      Simple 119 Expr [],
      Simple 123 Assign [''atom.tag == 0''],
      Simple 124 Expr [],
      Simple 125 Expr [],
      Simple 126 Expr [],
      Simple 130 Expr [],
      Simple 132 Expr [],
      Simple 139 Assign [],
      Simple 140 Expr [],
      Simple 142 Assign []],
     [Simple 162 Import [],
      Simple 163 Import [],
      Simple 164 Import [],
      Simple 167 Assign [],
      Simple 168 Assign [],
      Simple 170 Expr [],
      Simple 171 Expr []],
     [Simple 192 Assign [],
      Simple 193 Assign [],
      Simple 194 Expr [],
      Simple 197 Assign [],
      Simple 198 Assign [],
      Simple 199 Assign [],
      Simple 200 Expr [],
      Simple 201 Assign [''atom.tag == 0''],
      Simple 202 Expr [],
      Simple 203 Expr [],
      Simple 204 Expr [],
      Simple 205 Assign [],
      Simple 206 Expr [],
      Simple 207 Assign [],
      Simple 208 Expr [],
      Simple 211 Assign [],
      Simple 218 Assign [],
      Simple 220 Assign [],
      ForStmt 221
         [Simple 222 AugAssign []],
      Simple 224 Expr [],
      Simple 226 Assign [],
      Simple 227 Expr []],
     [Simple 245 Import [],
      Simple 246 Import [],
      Simple 248 Assign [],
      Simple 253 Assign [],
      Simple 260 Assign [],
      Simple 261 Expr []],
     []]"

definition interacting_with_datasets_cells :: "cell list" where
  "interacting_with_datasets_cells =
    [[Shell 38 [''mkdir'', ''data''],
      Shell 39 [''cd'', ''data''],
      Shell 40 [''wget'', ''-q'', ''http://dl.fbaipublicfiles.com/opencatalystproject/data/tutorial_data.tar.gz'', ''-O'', ''tutorial_data.tar.gz''],
      Shell 41 [''tar'', ''-xzvf'', ''tutorial_data.tar.gz''],
      Shell 42 [''rm'', ''tutorial_data.tar.gz'']],
     [Simple 66 Import [],
      Simple 69 Assign [],
      Simple 71 Expr [],
      Simple 72 Expr []],
     [Simple 88 Assign [],
      Simple 89 Expr []],
     [Simple 105 Import [],
      Simple 107 Assign [],
      Simple 108 Expr []],
     [Simple 125 Expr [],
      Simple 126 Expr [],
      Simple 127 Expr [],
      Simple 128 Expr []]]"

definition ocp_tasks_cells :: "cell list" where
  "ocp_tasks_cells =
    []"

definition s2ef_cells :: "cell list" where
  "s2ef_cells =
    [[Simple 53 Import [],
      Simple 54 Import [],
      Simple 55 Import [],
      Simple 56 Import [],
      Simple 57 Import [],
      Simple 58 Expr [],
      Simple 60 Import [],
      Simple 61 Import [],
      Simple 62 Import []],
     [Shell 83 [''mkdir'', ''data''],
      Shell 84 [''cd'', ''data''],
      Shell 85 [''wget'', ''-q'', ''-nc'', ''http://dl.fbaipublicfiles.com/opencatalystproject/data/tutorial_data.tar.gz'', ''-O'', ''tutorial_data.tar.gz''],
      Shell 86 [''tar'', ''-xzvf'', ''tutorial_data.tar.gz'']],
     [Simple 98 Assign [],
      Simple 99 Assign []],
     [Simple 127 Assign [],
      Simple 129 Assign [],
      ForStmt 130
         [Simple 131 Expr []],
      Simple 133 Assign [],
      Simple 134 Assign []],
     [Simple 169 Assign [],
      Simple 180 Assign [],
      Simple 212 Assign [],
      Simple 231 Assign []],
     [Simple 266 Assign []],
     [Simple 298 Expr []],
     [Simple 324 Expr []],
     [Simple 371 Assign [],
      Simple 372 Expr []],
     [Simple 391 Expr [],
      Simple 394 Expr []],
     [Simple 410 Assign [],
      Simple 425 Expr []],
     [Simple 452 Assign []],
     [Simple 464 Assign [],
      Simple 465 Assign []]]"

definition is2re_cells :: "cell list" where
  "is2re_cells =
    [[Simple 50 Import [],
      Simple 51 Import [],
      Simple 52 Import [],
      Simple 53 Import [],
      Simple 54 Import [],
      Simple 55 Expr [],
      Simple 57 Import [],
      Simple 58 Import [],
      Simple 59 Import []],
     [Shell 80 [''mkdir'', ''data''],
      Shell 81 [''cd'', ''data''],
      Shell 82 [''wget'', ''-q'', ''-nc'', ''http://dl.fbaipublicfiles.com/opencatalystproject/data/tutorial_data.tar.gz'', ''-O'', ''tutorial_data.tar.gz''],
      Shell 83 [''tar'', ''-xzvf'', ''tutorial_data.tar.gz'']],
     [Simple 95 Assign [],
      Simple 96 Assign []],
     [Simple 124 Assign [],
      Simple 126 Assign [],
      ForStmt 127
         [Simple 128 Expr []],
      Simple 130 Assign [],
      Simple 131 Assign []],
     [Simple 158 Assign [],
      Simple 166 Assign [],
      Simple 198 Assign [],
      Simple 215 Assign []],
     [Simple 248 Assign []],
     [Simple 280 Expr []],
     [Simple 307 Expr []],
     [Simple 344 Assign [],
      Simple 345 Expr []],
     [Simple 364 Expr [],
      Simple 367 Expr []],
     [Simple 384 Assign [],
      Simple 399 Expr []],
     [Simple 427 Assign []],
     [Simple 439 Assign []]]"

definition data_preprocessing_cells :: "cell list" where
  "data_preprocessing_cells =
    [[Simple 21 Import [],
      Simple 22 Import [],
      Simple 23 Import [],
      Simple 24 Import [],
      Simple 25 Import [],
      Simple 26 Import [],
      Simple 27 Import []],
     [Simple 45 Assign [],
      Simple 46 Assign [],
      Simple 47 Expr [],
      Simple 48 Assign [''atom.tag == 3''],
      Simple 49 Expr [],
      Simple 50 Expr [],
      Simple 51 Expr [],
      Simple 52 Expr [],
      Simple 53 Assign [],
      Simple 54 Expr []],
     [Simple 64 Assign [],
      Simple 65 Expr []],
     [Simple 93 Assign []],
     [Simple 111 Assign []],
     [Simple 121 Assign [],
      Simple 122 Expr []],
     [Simple 132 Expr []],
     [Simple 142 Expr []],
     [Simple 152 Expr []],
     [Simple 162 Import [],
      Simple 166 Expr []],
     [Simple 176 Expr []],
     [Simple 186 Expr []],
     [Simple 196 Expr []],
     [Simple 206 Expr []],
     [Simple 234 Assign [],
      ForStmt 235
         [Simple 236 Assign [],
          Simple 237 Assign [],
          Simple 238 Assign [],
          Simple 239 Expr []]],
     [Simple 249 Assign [],
      Simple 250 Expr []],
     [Simple 260 Expr []],
     [Simple 270 Expr []]]"

definition lmdb_dataset_creation_cells :: "cell list" where
  "lmdb_dataset_creation_cells =
    [[Simple 20 Import [],
      Simple 21 Import [],
      Simple 22 Import [],
      Simple 23 Import [],
      Simple 24 Import [],
      Simple 25 Import [],
      Simple 26 Import [],
      Simple 27 Import [],
      Simple 28 Import [],
      Simple 29 Import [],
      Simple 30 Import [],
      Simple 31 Import [],
      Simple 32 Import [],
      Simple 33 Import []],
     [Simple 51 Assign [],
      Simple 52 Assign [],
      Simple 53 Expr [],
      Simple 54 Assign [''atom.tag == 3''],
      Simple 55 Expr [],
      Simple 56 Expr [],
      Simple 57 Expr [],
      Simple 58 Expr [],
      Simple 59 Assign [],
      Simple 60 Expr []],
     [Simple 70 Assign [],
      Simple 71 Expr []],
     [Simple 108 Assign []],
     [Simple 133 Assign []],
     [DefStmt 157 ''read_trajectory_extract_features''
         [Simple 158 Assign [],
          Simple 159 Assign [],
          Simple 160 Assign [],
          Simple 161 Assign [],
          Simple 162 Assign [],
          Simple 163 Assign [],
          Simple 164 Return []]],
     [Simple 174 Assign [],
      Simple 175 Assign [],
      ForStmt 177
         [Simple 179 Assign [],
          Simple 180 Assign [],
          Simple 181 Assign [],
          Simple 183 Assign [],
          Simple 184 Delete [],
          Simple 185 Assign [],
          Simple 186 Assign [],
          Simple 191 Assign [],
          IfStmt 194 ''initial_struc.edge_index.shape[1] == 0''
             [Simple 195 Expr [],
              Simple 196 Continue []] [],
          Simple 199 Assign [],
          Simple 200 Expr [],
          Simple 201 Expr [],
          Simple 202 Expr [],
          Simple 203 AugAssign []],
      Simple 205 Expr []],
     [Simple 215 Assign [],
      Simple 216 Expr []],
     [Simple 226 Expr []],
     [Simple 254 Expr [],
      Simple 255 Assign []],
     [Simple 271 Assign [],
      Simple 272 Assign [],
      ForStmt 275
         [Simple 277 Assign [],
          Simple 280 Assign [],
          Simple 283 Assign [],
          IfStmt 289 ''data.edge_index.shape[1] == 0''
             [Simple 290 Expr [],
              Simple 291 Continue []] [],
          Simple 293 Assign [],
          Simple 294 Expr [],
          Simple 295 Expr []],
      Simple 297 Assign [],
      Simple 298 Expr [],
      Simple 299 Expr [],
      Simple 302 Expr [],
      Simple 303 Expr []],
     [Simple 313 Assign [],
      Simple 314 Expr []],
     [Simple 324 Expr []],
     [Simple 354 Assign []],
     [Simple 364 Assign [],
      Simple 365 Expr []],
     [Simple 375 Assign [],
      Simple 376 Expr []],
     [Simple 386 Expr [],
      Simple 387 Expr [],
      Simple 388 Expr [],
      Simple 389 Expr []]]"

definition notebook_code :: "(string \<times> cell list) list" where
  "notebook_code =
    [(''background'', background_cells),
     (''relaxations'', relaxations_cells),
     (''ase_calculator_demo'', ase_calculator_demo_cells),
     (''ase_calculator_demo_oc22'', ase_calculator_demo_oc22_cells),
     (''interacting_with_datasets'', interacting_with_datasets_cells),
     (''ocp_tasks'', ocp_tasks_cells),
     (''s2ef'', s2ef_cells),
     (''is2re'', is2re_cells),
     (''data_preprocessing'', data_preprocessing_cells),
     (''lmdb_dataset_creation'', lmdb_dataset_creation_cells)]"

text \<open>Every statement of a block, the nested ones after the statement that holds them.\<close>

fun nodes :: "stmt \<Rightarrow> stmt list" where
  "nodes (Simple l k cs) = [Simple l k cs]"
| "nodes (Shell l ws) = [Shell l ws]"
| "nodes (ForStmt l b) = ForStmt l b # concat (map nodes b)"
| "nodes (WithStmt l b) = WithStmt l b # concat (map nodes b)"
| "nodes (DefStmt l n b) = DefStmt l n b # concat (map nodes b)"
| "nodes (IfStmt l t b e) = IfStmt l t b e # concat (map nodes b) @ concat (map nodes e)"
| "nodes (WhileStmt l t b) = WhileStmt l t b # concat (map nodes b)"
| "nodes (TryStmt l b hs e f) =
    TryStmt l b hs e f # concat (map nodes b) @ concat (map (\<lambda>h. concat (map nodes h)) hs)
      @ concat (map nodes e) @ concat (map nodes f)"
| "nodes (RaiseStmt l) = [RaiseStmt l]"
| "nodes (AssertStmt l t) = [AssertStmt l t]"

definition statements :: "cell list \<Rightarrow> stmt list" where
  "statements cells = concat (map nodes (concat cells))"

text \<open>
  The statements with which a program handles a failure, tries again or gives up on a
  condition of its own: \<open>try\<close>, \<open>while\<close>, \<open>raise\<close>, \<open>assert\<close>.
\<close>

fun handling :: "stmt \<Rightarrow> bool" where
  "handling (TryStmt l b hs e f) = True"
| "handling (WhileStmt l t b) = True"
| "handling (RaiseStmt l) = True"
| "handling (AssertStmt l t) = True"
| "handling s = False"

fun is_if :: "stmt \<Rightarrow> bool" where
  "is_if (IfStmt l t b e) = True"
| "is_if s = False"

fun expression_tests :: "stmt \<Rightarrow> string list" where
  "expression_tests (Simple l k cs) = cs"
| "expression_tests s = []"

definition handlers_of :: "cell list \<Rightarrow> stmt list" where
  "handlers_of cells = filter handling (statements cells)"

definition checks_of :: "cell list \<Rightarrow> stmt list" where
  "checks_of cells = filter is_if (statements cells)"

definition filters_of :: "cell list \<Rightarrow> string list" where
  "filters_of cells = remdups (concat (map expression_tests (statements cells)))"

section \<open>Properties\<close>

subsection \<open>Decimal keys\<close>

lemma digit_val_digit_char: "d < 10 \<Longrightarrow> digit_val (digit_char d) = d"
  by (simp add: digit_val_def digit_char_def)

lemma is_digit_digit_char: "d < 10 \<Longrightarrow> is_digit (digit_char d)"
  by (simp add: is_digit_def digit_char_def)

lemma nat_of_str_snoc: "nat_of_str (s @ [c]) = 10 * nat_of_str s + digit_val c"
  by (simp add: nat_of_str_def)

lemma nat_of_str_str_nat: "nat_of_str (str_nat n) = n"
proof (induction n rule: str_nat.induct)
  case (1 n)
  show ?case
  proof (cases "n < 10")
    case True
    then show ?thesis
      by (simp add: str_nat.simps [of n] nat_of_str_def digit_val_digit_char)
  next
    case False
    then have "nat_of_str (str_nat (n div 10)) = n div 10"
      using "1.IH" by simp
    with False show ?thesis
      by (simp add: str_nat.simps [of n] nat_of_str_snoc digit_val_digit_char)
  qed
qed

lemma str_nat_inj: "str_nat m = str_nat n \<Longrightarrow> m = n"
  by (metis nat_of_str_str_nat)

lemma key_of_inj: "key_of m = key_of n \<longleftrightarrow> m = n"
  by (auto simp: key_of_def dest: str_nat_inj)

lemma str_nat_digits: "\<forall>c \<in> set (str_nat n). is_digit c"
proof (induction n rule: str_nat.induct)
  case (1 n)
  show ?case
  proof (cases "n < 10")
    case True
    then show ?thesis
      by (simp add: str_nat.simps [of n] is_digit_digit_char)
  next
    case False
    with "1.IH" show ?thesis
      by (simp add: str_nat.simps [of n] is_digit_digit_char)
  qed
qed

lemma str_nat_not_empty: "str_nat n \<noteq> []"
  by (simp add: str_nat.simps [of n])

lemma key_of_0: "key_of 0 = ''0''"
  by code_simp

lemma key_of_1: "key_of 1 = ''1''"
  by code_simp

lemma key_of_2: "key_of 2 = ''2''"
  by code_simp


subsection \<open>The store and the loop invariant\<close>

lemma update_fresh: "k \<notin> fst ` set al \<Longrightarrow> AList.update k v al = al @ [(k, v)]"
  by (induction al) auto

lemma traj_path_unbound: "''traj_path'' \<notin> set creation_globals"
  by (simp add: creation_globals_def)

lemma is2re_record_sid: "is2re_record L system i = Inr r \<Longrightarrow> sid r = Some (PyInt i)"
  by (auto simp: is2re_record_def split: sum.splits list.splits option.splits)

lemma is2re_inv_put:
  assumes "is2re_inv st" and "sid r = Some (PyInt (idx st))"
  shows "is2re_inv (st\<lparr>db := txn_put (key_of (idx st)) (pickle_dumps (DataObj r)) (db st),
                       idx := idx st + 1\<rparr>)"
proof -
  have keys: "map fst (db st) = map key_of [0..<idx st]"
    using assms(1) by (simp add: is2re_inv_def)
  have len: "length (db st) = idx st"
    using keys by (metis length_map length_upt minus_nat.diff_0)
  have "key_of (idx st) \<notin> fst ` set (db st)"
  proof
    assume "key_of (idx st) \<in> fst ` set (db st)"
    then have "key_of (idx st) \<in> set (map key_of [0..<idx st])"
      using keys by (metis set_map)
    then show False by (auto simp: key_of_inj)
  qed
  then have upd: "txn_put (key_of (idx st)) (pickle_dumps (DataObj r)) (db st)
      = db st @ [(key_of (idx st), pickle_dumps (DataObj r))]"
    by (simp add: txn_put_def update_fresh)
  show ?thesis
    unfolding is2re_inv_def
  proof (intro conjI allI impI)
    show "map fst (db (st\<lparr>db := txn_put (key_of (idx st)) (pickle_dumps (DataObj r)) (db st), idx := idx st + 1\<rparr>)) =
    map key_of [0..<idx (st\<lparr>db := txn_put (key_of (idx st)) (pickle_dumps (DataObj r)) (db st), idx := idx st + 1\<rparr>)]"
      using keys by (simp add: upd)
  next
    fix i
    assume "i < idx (st\<lparr>db := txn_put (key_of (idx st)) (pickle_dumps (DataObj r)) (db st), idx := idx st + 1\<rparr>)"
    then have "i < idx st \<or> i = idx st" by auto
    then show "\<exists>ra. db (st\<lparr>db := txn_put (key_of (idx st)) (pickle_dumps (DataObj r)) (db st), idx := idx st + 1\<rparr>) ! i =
            (key_of i, pickle_dumps (DataObj ra)) \<and> sid ra = Some (PyInt i)"
    proof
      assume "i < idx st"
      then show ?thesis
        using assms(1) len by (simp add: upd is2re_inv_def nth_append)
    next
      assume "i = idx st"
      then show ?thesis
        using assms(2) len by (auto simp: upd nth_append)
    qed
  qed
qed

lemma is2re_loop_inv: "is2re_inv st \<Longrightarrow> is2re_inv (final (is2re_loop g L systems st))"
proof (induction systems arbitrary: st)
  case Nil
  then show ?case by simp
next
  case (Cons system rest)
  show ?case
  proof (cases "is2re_record L system (idx st)")
    case (Inl e)
    then show ?thesis using Cons.prems by simp
  next
    case (Inr r)
    then have s: "sid r = Some (PyInt (idx st))" by (rule is2re_record_sid)
    show ?thesis
      using Inr Cons.prems Cons.IH [OF Cons.prems] Cons.IH [OF is2re_inv_put [OF Cons.prems s]]
      by simp
  qed
qed

lemma is2re_inv_init: "is2re_inv \<lparr>db = [], idx = 0\<rparr>"
  by (simp add: is2re_inv_def)

lemma is2re_loop_writes:
  "idx st \<le> idx (final (is2re_loop g L systems st))
    \<and> (\<forall>k. k \<notin> key_of ` {idx st..<idx (final (is2re_loop g L systems st))} \<longrightarrow>
          map_of (db (final (is2re_loop g L systems st))) k = map_of (db st) k)
    \<and> (\<forall>i. idx st \<le> i \<and> i < idx (final (is2re_loop g L systems st)) \<longrightarrow>
          (\<exists>r. map_of (db (final (is2re_loop g L systems st))) (key_of i)
                 = Some (pickle_dumps (DataObj r)) \<and> sid r = Some (PyInt i)))"
proof (induction systems arbitrary: st)
  case Nil
  then show ?case by auto
next
  case (Cons system rest)
  show ?case
  proof (cases "is2re_record L system (idx st)")
    case (Inl e)
    then show ?thesis by auto
  next
    case (Inr r)
    let ?v = "pickle_dumps (DataObj r)"
    let ?st2 = "st\<lparr>db := txn_put (key_of (idx st)) ?v (db st), idx := idx st + 1\<rparr>"
    show ?thesis
    proof (cases "edge_index r = []")
      case True
      then show ?thesis
        using Inr Cons.IH [of st] by auto
    next
      case False
      let ?f = "final (is2re_loop g L rest ?st2)"
      have fin: "final (is2re_loop g L (system # rest) st) = ?f"
        using Inr False by simp
      have m2: "map_of (txn_put (key_of (idx st)) ?v (db st))
          = (map_of (db st))(key_of (idx st) \<mapsto> ?v)"
        by (simp add: txn_put_def update_conv')
      note IH = Cons.IH [of ?st2]
      have le: "idx st < idx ?f"
        using IH by simp
      have b: "map_of (db ?f) k = map_of (db st) k" if k: "k \<notin> key_of ` {idx st..<idx ?f}" for k
      proof -
        have "k \<notin> key_of ` {idx ?st2..<idx ?f}"
          using k by auto
        then have "map_of (db ?f) k = map_of (db ?st2) k"
          using IH by blast
        moreover have "k \<noteq> key_of (idx st)"
          using k le by auto
        ultimately show ?thesis
          by (simp add: m2)
      qed
      have c: "\<exists>r'. map_of (db ?f) (key_of i) = Some (pickle_dumps (DataObj r')) \<and> sid r' = Some (PyInt i)"
        if i: "idx st \<le> i \<and> i < idx ?f" for i
      proof (cases "i = idx st")
        case True
        have "key_of i \<notin> key_of ` {idx ?st2..<idx ?f}"
          using True by (auto simp: key_of_inj)
        then have "map_of (db ?f) (key_of i) = map_of (db ?st2) (key_of i)"
          using IH by blast
        then have "map_of (db ?f) (key_of i) = Some ?v"
          using True by (simp add: m2)
        moreover have "sid r = Some (PyInt i)"
          using Inr True by (simp add: is2re_record_sid)
        ultimately show ?thesis by blast
      next
        case False
        then have "idx ?st2 \<le> i \<and> i < idx ?f"
          using i by simp
        then show ?thesis
          using IH by blast
      qed
      show ?thesis
        unfolding fin using le b c by (simp add: less_imp_le)
    qed
  qed
qed

subsection \<open>C9: the keys of the IS2RE store are the consecutive indices\<close>

text \<open>
  Claim C9. In the IS2RE writing loop \<open>idx\<close> is incremented only after a record has been
  put and committed. So, for every list of systems, whatever the libraries return and
  whether the cell completes or an exception stops it, with \<open>n\<close> the final value of \<open>idx\<close>:
  the keys written are exactly the decimal texts of \<open>0, 1, ..., n - 1\<close>. Under the key
  of each \<open>i < n\<close> the store holds a record with \<open>sid = i\<close> (first part), and every other key
  has the value it had before the cell ran (second part). On a store that was empty the
  store then holds exactly \<open>n\<close> entries, the set of their keys is the set of these texts,
  and the keys are pairwise distinct (remaining parts).
\<close>

theorem is2re_keys_consecutive:
  fixes L :: "('a, 't) libs" and g systems db0
  defines "st \<equiv> final (is2re_cell g L systems db0)"
    and "st0 \<equiv> final (is2re_cell g L systems [])"
  shows "(\<forall>i<idx st. \<exists>r. map_of (db st) (key_of i) = Some (pickle_dumps (DataObj r))
                         \<and> sid r = Some (PyInt i))
    \<and> (\<forall>k. k \<notin> key_of ` {..<idx st} \<longrightarrow> map_of (db st) k = map_of db0 k)
    \<and> length (db st0) = idx st0
    \<and> fst ` set (db st0) = key_of ` {..<idx st0}
    \<and> distinct (map fst (db st0))"
proof -
  have w: "(\<forall>k. k \<notin> key_of ` {0..<idx st} \<longrightarrow> map_of (db st) k = map_of db0 k)
    \<and> (\<forall>i. 0 \<le> i \<and> i < idx st \<longrightarrow>
          (\<exists>r. map_of (db st) (key_of i) = Some (pickle_dumps (DataObj r)) \<and> sid r = Some (PyInt i)))"
    using is2re_loop_writes [of "\<lparr>db = db0, idx = 0\<rparr>" g L systems]
    by (simp add: st_def is2re_cell_def)
  have inv: "is2re_inv st0"
    unfolding st0_def is2re_cell_def by (rule is2re_loop_inv [OF is2re_inv_init])
  then have keys: "map fst (db st0) = map key_of [0..<idx st0]"
    by (simp add: is2re_inv_def)
  have len: "length (db st0) = idx st0"
    using keys by (metis length_map length_upt minus_nat.diff_0)
  have dist: "distinct (map fst (db st0))"
    unfolding keys by (simp add: distinct_map inj_on_def key_of_inj)
  have "set (map fst (db st0)) = set (map key_of [0..<idx st0])"
    using keys by simp
  then have kset: "fst ` set (db st0) = key_of ` {..<idx st0}"
    by (simp add: atLeast0LessThan)
  show ?thesis
    using w len kset dist by (simp add: atLeast0LessThan)
qed

text \<open>
  The demo itself: one system, one record, under the key \<open>0\<close> and with \<open>sid = 0\<close>.
\<close>

theorem is2re_keys_consecutive_witness:
  "idx (final (is2re_cell creation_globals demo_libs system_paths [])) = 1
   \<and> (\<exists>r. map_of (db (final (is2re_cell creation_globals demo_libs system_paths []))) ''0''
            = Some (pickle_dumps (DataObj r)) \<and> sid r = Some (PyInt 0))"
proof -
  have n: "idx (final (is2re_cell creation_globals demo_libs system_paths [])) = 1"
    by code_simp
  have "0 < idx (final (is2re_cell creation_globals demo_libs system_paths []))"
    using n by simp
  with is2re_keys_consecutive
    [where g = creation_globals and L = demo_libs and systems = system_paths and ?db0.0 = "[]"]
  have "\<exists>r. map_of (db (final (is2re_cell creation_globals demo_libs system_paths []))) (key_of 0)
            = Some (pickle_dumps (DataObj r)) \<and> sid r = Some (PyInt 0)"
    by blast
  with n show ?thesis by (simp only: key_of_0 simp_thms)
qed

subsection \<open>Running the loops\<close>


lemma is2re_loop_append:
  "is2re_loop g L (xs @ ys) st =
    (case is2re_loop g L xs st of
       Completed st' \<Rightarrow> is2re_loop g L ys st'
     | Raised e st' \<Rightarrow> Raised e st')"
  by (induction xs arbitrary: st) (auto split: sum.splits)

lemma s2ef_loop_append:
  "s2ef_loop g tgs (xs @ ys) st =
    (case s2ef_loop g tgs xs st of
       Completed st' \<Rightarrow> s2ef_loop g tgs ys st'
     | Raised e st' \<Rightarrow> Raised e st')"
  by (induction xs arbitrary: st) (auto simp: Let_def)

lemma s2ef_record_edge_index: "edge_index (s2ef_record tgs i d) = edge_index d"
  by (simp add: s2ef_record_def)

lemma is2re_completed_idx:
  "is2re_loop creation_globals L systems st0 = Completed st \<Longrightarrow> idx st = idx st0 + length systems"
proof (induction systems arbitrary: st0)
  case Nil
  then show ?case by simp
next
  case (Cons system rest)
  then show ?case
    by (auto simp: traj_path_unbound split: sum.splits if_splits)
qed

lemma s2ef_completed_edges:
  "s2ef_loop creation_globals tgs frames st0 = Completed st \<Longrightarrow> list_all (\<lambda>p. edge_index (snd p) \<noteq> []) frames"
proof (induction frames arbitrary: st0)
  case Nil
  then show ?case by simp
next
  case (Cons p rest)
  obtain i d where p: "p = (i, d)" by (cases p)
  from Cons show ?case
    by (auto simp: p Let_def traj_path_unbound s2ef_record_edge_index split: if_splits)
qed

subsection \<open>C8: the zero-neighbour branch raises \<open>NameError\<close>\<close>

text \<open>
  Claim C8. In both store-writing loops the branch taken for a frame with an empty edge set
  evaluates the name \<open>traj_path\<close>, which no cell of the notebook binds at the top level.
  So whenever a loop, having completed a prefix of its input, reaches a frame whose
  \<open>edge_index\<close> has no column, it stops with \<open>NameError\<close> in the state reached so far (first
  two parts). The \<open>continue\<close> is never executed: a loop that completes has written one
  record per system (third part), and no frame of a completed S2EF loop has an empty edge
  set (fourth part).
\<close>

theorem zero_neighbour_raises_NameError:
  "(is2re_loop creation_globals L pre st0 = Completed st \<longrightarrow>
      is2re_record L system (idx st) = Inr r \<longrightarrow> edge_index r = [] \<longrightarrow>
      is2re_loop creation_globals L (pre @ system # rest) st0 = Raised (NameError ''traj_path'') st)
   \<and> (s2ef_loop creation_globals tgs pre' db0 = Completed db1 \<longrightarrow> edge_index d = [] \<longrightarrow>
      s2ef_loop creation_globals tgs (pre' @ (i, d) # rest') db0 = Raised (NameError ''traj_path'') db1)
   \<and> (is2re_loop creation_globals L systems st0 = Completed st' \<longrightarrow>
      idx st' = idx st0 + length systems)
   \<and> (s2ef_loop creation_globals tgs frames db0 = Completed db2 \<longrightarrow>
      list_all (\<lambda>p. edge_index (snd p) \<noteq> []) frames)"
proof (intro conjI impI)
  assume "is2re_loop creation_globals L pre st0 = Completed st"
    and "is2re_record L system (idx st) = Inr r" and "edge_index r = []"
  then show "is2re_loop creation_globals L (pre @ system # rest) st0 = Raised (NameError ''traj_path'') st"
    by (simp add: is2re_loop_append traj_path_unbound)
next
  assume "s2ef_loop creation_globals tgs pre' db0 = Completed db1" and "edge_index d = []"
  then show "s2ef_loop creation_globals tgs (pre' @ (i, d) # rest') db0 = Raised (NameError ''traj_path'') db1"
    by (simp add: s2ef_loop_append traj_path_unbound s2ef_record_edge_index)
next
  assume "is2re_loop creation_globals L systems st0 = Completed st'"
  then show "idx st' = idx st0 + length systems" by (rule is2re_completed_idx)
next
  assume "s2ef_loop creation_globals tgs frames db0 = Completed db2"
  then show "list_all (\<lambda>p. edge_index (snd p) \<noteq> []) frames" by (rule s2ef_completed_edges)
qed

text \<open>
  Both loops at a frame without neighbours, and the two completed runs of the last two
  parts.
\<close>

theorem zero_neighbour_raises_NameError_witness:
  "is2re_loop creation_globals sparse_libs ([] @ ''CuCO_adslab.traj'' # []) \<lparr>db = [], idx = 0\<rparr>
      = Raised (NameError ''traj_path'') \<lparr>db = [], idx = 0\<rparr>
   \<and> s2ef_loop creation_globals [3, 2, 1, 0, 0]
        ([(0, frame_with_edges)] @ (1, frame_isolated) # [(2, frame_with_edges)]) []
      = Raised (NameError ''traj_path'') [s2ef_put [3, 2, 1, 0, 0] (0, frame_with_edges)]
   \<and> idx (final (is2re_loop creation_globals demo_libs system_paths \<lparr>db = [], idx = 0\<rparr>)) = 1
   \<and> list_all (\<lambda>p. edge_index (snd p) \<noteq> []) [(0 :: nat, frame_with_edges)]"
proof -
  let ?st0 = "\<lparr>db = [], idx = 0\<rparr> :: int wstate"
  let ?r = "\<lparr>pos = 0, edge_index = [], y = None, tags = Some [3, 2, 1, 0, 0],
        sid = Some (PyInt 0), fid = None, y_init = Some 0,
        y_relaxed = Some (- 2), pos_relaxed = Some 2\<rparr> :: int data"
  let ?tgs = "[3, 2, 1, 0, 0] :: int list"
  have a1: "is2re_loop creation_globals sparse_libs [] ?st0 = Completed ?st0"
    by simp
  have a2: "is2re_record sparse_libs ''CuCO_adslab.traj'' (idx ?st0) = Inr ?r"
    by code_simp
  have a3: "edge_index ?r = []"
    by simp
  have b1: "s2ef_loop creation_globals ?tgs [(0, frame_with_edges)] []
      = Completed [s2ef_put ?tgs (0, frame_with_edges)]"
    by code_simp
  have b2: "edge_index frame_isolated = []"
    by (simp add: frame_isolated_def)
  have c1: "is2re_loop creation_globals demo_libs system_paths ?st0
      = Completed (final (is2re_loop creation_globals demo_libs system_paths ?st0))"
    by code_simp
  have c2: "length system_paths = 1"
    by (simp add: system_paths_def)
  have p1: "is2re_loop creation_globals sparse_libs ([] @ ''CuCO_adslab.traj'' # []) ?st0
      = Raised (NameError ''traj_path'') ?st0"
    by (rule zero_neighbour_raises_NameError [THEN conjunct1, rule_format, OF a1 a2 a3])
  have p2: "s2ef_loop creation_globals ?tgs
        ([(0, frame_with_edges)] @ (1, frame_isolated) # [(2, frame_with_edges)]) []
      = Raised (NameError ''traj_path'') [s2ef_put ?tgs (0, frame_with_edges)]"
    by (rule zero_neighbour_raises_NameError
          [THEN conjunct2, THEN conjunct1, rule_format, OF b1 b2])
  have "idx (final (is2re_loop creation_globals demo_libs system_paths ?st0))
      = idx ?st0 + length system_paths"
    by (rule zero_neighbour_raises_NameError
          [THEN conjunct2, THEN conjunct2, THEN conjunct1, rule_format, OF c1])
  then have p3: "idx (final (is2re_loop creation_globals demo_libs system_paths ?st0)) = 1"
    using c2 by simp
  have p4: "list_all (\<lambda>p. edge_index (snd p) \<noteq> []) [(0 :: nat, frame_with_edges)]"
    by (rule zero_neighbour_raises_NameError
          [THEN conjunct2, THEN conjunct2, THEN conjunct2, rule_format, OF b1])
  from p1 p2 p3 p4 show ?thesis by blast
qed
subsection \<open>What the loops put into the store\<close>

lemma set_txn_put: "set (txn_put k v al) \<subseteq> insert (k, v) (set al)"
  unfolding txn_put_def by (induction al) auto

lemma list_all_txn_put: "list_all P al \<Longrightarrow> P (k, v) \<Longrightarrow> list_all P (txn_put k v al)"
  using set_txn_put [of k v al] by (auto simp: list_all_iff)

lemma is2re_record_built:
  assumes "is2re_record L system i = Inr r"
  shows "\<exists>a traj. ase_io_read L system = Inr (a # traj) \<and>
     r = (a2g_convert L a)
           \<lparr>tags := Some (get_tags L a), y_init := y (a2g_convert L a), y := None,
            y_relaxed := y (a2g_convert L (last (a # traj))),
            pos_relaxed := Some (pos (a2g_convert L (last (a # traj)))),
            sid := Some (PyInt i)\<rparr>"
proof (cases "ase_io_read L system")
  case (Inl e)
  with assms show ?thesis
    by (simp add: is2re_record_def read_trajectory_extract_features_def)
next
  case (Inr traj)
  show ?thesis
  proof (cases traj)
    case Nil
    with assms Inr show ?thesis
      by (simp add: is2re_record_def read_trajectory_extract_features_def)
  next
    case (Cons a rest)
    with assms Inr have "r = (a2g_convert L a)
           \<lparr>tags := Some (get_tags L a), y_init := y (a2g_convert L a), y := None,
            y_relaxed := y (a2g_convert L (last (a # rest))),
            pos_relaxed := Some (pos (a2g_convert L (last (a # rest)))),
            sid := Some (PyInt i)\<rparr>"
      by (simp add: is2re_record_def read_trajectory_extract_features_def convert_all_def Let_def)
    with Inr Cons show ?thesis by blast
  qed
qed

lemma is2re_loop_puts:
  assumes "list_all P (db st)"
    and "\<And>system i r. system \<in> set systems \<Longrightarrow> is2re_record L system i = Inr r
           \<Longrightarrow> P (key_of i, pickle_dumps (DataObj r))"
  shows "list_all P (db (final (is2re_loop g L systems st)))"
  using assms
proof (induction systems arbitrary: st)
  case Nil
  then show ?case by simp
next
  case (Cons system rest)
  have step: "\<And>s i r. s \<in> set rest \<Longrightarrow> is2re_record L s i = Inr r
           \<Longrightarrow> P (key_of i, pickle_dumps (DataObj r))"
    using Cons.prems(2) by (meson list.set_intros(2))
  show ?case
  proof (cases "is2re_record L system (idx st)")
    case (Inl e)
    then show ?thesis using Cons.prems(1) by simp
  next
    case (Inr r)
    have "P (key_of (idx st), pickle_dumps (DataObj r))"
      by (rule Cons.prems(2) [OF _ Inr]) simp
    then have "list_all P (txn_put (key_of (idx st)) (pickle_dumps (DataObj r)) (db st))"
      using Cons.prems(1) by (intro list_all_txn_put)
    then show ?thesis
      using Inr Cons.prems(1) Cons.IH step by simp
  qed
qed

lemma s2ef_loop_puts:
  assumes "list_all P st"
    and "\<And>p. p \<in> set frames \<Longrightarrow> P (s2ef_put tgs p)"
  shows "list_all P (final (s2ef_loop g tgs frames st))"
  using assms
proof (induction frames arbitrary: st)
  case Nil
  then show ?case by simp
next
  case (Cons p rest)
  obtain i d where p: "p = (i, d)" by (cases p)
  have "P (key_of i, pickle_dumps (DataObj (s2ef_record tgs i d)))"
    using Cons.prems(2) [of p] by (simp add: p s2ef_put_def)
  then have "list_all P (txn_put (key_of i) (pickle_dumps (DataObj (s2ef_record tgs i d))) st)"
    using Cons.prems(1) by (intro list_all_txn_put)
  then show ?case
    using Cons.prems Cons.IH by (simp add: p Let_def)
qed

lemma key_of_digits: "list_all is_digit (key_of i)"
  using str_nat_digits [of i] by (simp add: key_of_def list_all_iff)

lemma length_not_index_key: "''length'' \<noteq> key_of i"
proof
  assume "''length'' = key_of i"
  then have "list_all is_digit ''length''" using key_of_digits [of i] by simp
  then show False by (simp add: is_digit_def)
qed

lemma s2ef_loop_keys:
  "fst ` set (final (s2ef_loop g tgs frames st)) \<subseteq> fst ` set st \<union> key_of ` fst ` set frames"
proof (induction frames arbitrary: st)
  case Nil
  then show ?case by simp
next
  case (Cons p rest)
  obtain i d where p: "p = (i, d)" by (cases p)
  have "fst ` set (txn_put (key_of i) (pickle_dumps (DataObj (s2ef_record tgs i d))) st)
      = {key_of i} \<union> fst ` set st"
    by (simp add: txn_put_def dom_update)
  with Cons.IH [of st] Cons.IH [of "txn_put (key_of i) (pickle_dumps (DataObj (s2ef_record tgs i d))) st"]
  show ?case
    by (auto simp: p Let_def)
qed

lemma s2ef_cell_completed_put:
  assumes "s2ef_cell g L raw_data db0 = Completed st"
  shows "st = txn_put ''length'' (pickle_dumps (IntObj (length raw_data)))
               (final (s2ef_loop g (get_tags L (hd raw_data))
                         (enumerate 0 (convert_all L raw_data)) db0))"
proof (cases raw_data)
  case Nil
  with assms show ?thesis by (simp add: s2ef_cell_def)
next
  case (Cons a rest)
  with assms show ?thesis
    by (auto simp: s2ef_cell_def Let_def convert_all_def split: outcome.splits)
qed

lemma s2ef_cell_completed:
  assumes "s2ef_cell g L raw_data [] = Completed st"
  shows "st = final (s2ef_loop g (get_tags L (hd raw_data)) (enumerate 0 (convert_all L raw_data)) [])
              @ [(''length'', pickle_dumps (IntObj (length raw_data)))]"
proof -
  let ?loop = "s2ef_loop g (get_tags L (hd raw_data)) (enumerate 0 (convert_all L raw_data)) []"
  have "''length'' \<notin> fst ` set (final ?loop)"
    using s2ef_loop_keys [of g "get_tags L (hd raw_data)" "enumerate 0 (convert_all L raw_data)" "[]"]
      length_not_index_key by auto
  then show ?thesis
    using s2ef_cell_completed_put [OF assms] by (simp add: txn_put_def update_fresh)
qed

subsection \<open>C1: keys and values of the records written\<close>

text \<open>
  Claim C1, as amended. Every put performed inside the two writing loops is addressed by
  the decimal text of the record's integer index, and the stored value is the serialized
  graph record holding the structure data plus its targets. Whatever the store held
  before, every entry found in it after the IS2RE loop was there before or is, for some
  system of the list and the image \<open>a\<close> that starts its trajectory, the pickled record that
  the converter built for \<open>a\<close> (positions, edges and the rest of the structure data),
  with the tags of \<open>a\<close>, with \<open>y_init\<close> the energy of \<open>a\<close>, with \<open>y_relaxed\<close> and
  \<open>pos_relaxed\<close> the energy and the positions of the last image, with \<open>y\<close> deleted and
  with \<open>sid = idx\<close>, under the key that is the text of \<open>idx\<close> (first part). Likewise every
  new entry after the S2EF loop is, for some frame \<open>i\<close>, the pickled converted record of
  that frame (structure data, energy and forces as converted) with \<open>sid\<close>, \<open>fid = i\<close> and
  the tags assigned, under the key that is the text of \<open>i\<close> (second part). The S2EF cell
  then performs one more put, which is not a record: when the cell completes, its store
  is the store of the loop with the pickled integer \<open>len(data_objects)\<close> put under the key
  \<open>length\<close> (third part), a new last entry when the store was empty before (fourth part).
\<close>

theorem loop_puts_keyed_by_index:
  "(\<forall>e \<in> set (db (final (is2re_cell g L systems db0))). e \<in> set db0 \<or>
      (\<exists>system \<in> set systems. \<exists>i a traj. ase_io_read L system = Inr (a # traj) \<and>
         e = (key_of i, pickle_dumps (DataObj ((a2g_convert L a)
                \<lparr>tags := Some (get_tags L a), y_init := y (a2g_convert L a), y := None,
                 y_relaxed := y (a2g_convert L (last (a # traj))),
                 pos_relaxed := Some (pos (a2g_convert L (last (a # traj)))),
                 sid := Some (PyInt i)\<rparr>)))))
   \<and> (\<forall>e \<in> set (final (s2ef_loop g tgs (enumerate 0 ds) db0)). e \<in> set db0 \<or>
      (\<exists>i<length ds.
         e = (key_of i, pickle_dumps (DataObj ((ds ! i)
                \<lparr>sid := Some (LongTensor [0]), fid := Some (LongTensor [i]),
                 tags := Some tgs\<rparr>)))))
   \<and> (s2ef_cell g L' raw_data db0 = Completed st \<longrightarrow>
        st = txn_put ''length'' (pickle_dumps (IntObj (length raw_data)))
               (final (s2ef_loop g (get_tags L' (hd raw_data))
                         (enumerate 0 (convert_all L' raw_data)) db0)))
   \<and> (s2ef_cell g L' raw_data [] = Completed st' \<longrightarrow>
        st' = final (s2ef_loop g (get_tags L' (hd raw_data))
                       (enumerate 0 (convert_all L' raw_data)) [])
              @ [(''length'', pickle_dumps (IntObj (length raw_data)))])"
proof (intro conjI impI)
  let ?P1 = "\<lambda>e. e \<in> set db0 \<or>
      (\<exists>system \<in> set systems. \<exists>i a traj. ase_io_read L system = Inr (a # traj) \<and>
         e = (key_of i, pickle_dumps (DataObj ((a2g_convert L a)
                \<lparr>tags := Some (get_tags L a), y_init := y (a2g_convert L a), y := None,
                 y_relaxed := y (a2g_convert L (last (a # traj))),
                 pos_relaxed := Some (pos (a2g_convert L (last (a # traj)))),
                 sid := Some (PyInt i)\<rparr>))))"
  let ?P2 = "\<lambda>e. e \<in> set db0 \<or>
      (\<exists>i<length ds.
         e = (key_of i, pickle_dumps (DataObj ((ds ! i)
                \<lparr>sid := Some (LongTensor [0]), fid := Some (LongTensor [i]),
                 tags := Some tgs\<rparr>))))"
  have "list_all ?P1 (db (final (is2re_cell g L systems db0)))"
    unfolding is2re_cell_def
  proof (rule is2re_loop_puts)
    show "list_all ?P1 (db \<lparr>db = db0, idx = 0\<rparr>)"
      by (simp add: list_all_iff)
  next
    fix system i r
    assume "system \<in> set systems" and "is2re_record L system i = Inr r"
    then show "?P1 (key_of i, pickle_dumps (DataObj r))"
      using is2re_record_built [of L system i r] by blast
  qed
  then show "\<forall>e \<in> set (db (final (is2re_cell g L systems db0))). ?P1 e"
    by (simp add: list_all_iff)
  have "list_all ?P2 (final (s2ef_loop g tgs (enumerate 0 ds) db0))"
  proof (rule s2ef_loop_puts)
    show "list_all ?P2 db0"
      by (simp add: list_all_iff)
  next
    fix p
    assume "p \<in> set (enumerate 0 ds)"
    then have "fst p < length ds" "snd p = ds ! fst p"
      by (auto simp: in_set_enumerate_eq)
    then show "?P2 (s2ef_put tgs p)"
      by (auto simp: s2ef_put_def s2ef_record_def)
  qed
  then show "\<forall>e \<in> set (final (s2ef_loop g tgs (enumerate 0 ds) db0)). ?P2 e"
    by (simp add: list_all_iff)
next
  assume "s2ef_cell g L' raw_data db0 = Completed st"
  then show "st = txn_put ''length'' (pickle_dumps (IntObj (length raw_data)))
               (final (s2ef_loop g (get_tags L' (hd raw_data))
                         (enumerate 0 (convert_all L' raw_data)) db0))"
    by (rule s2ef_cell_completed_put)
next
  assume "s2ef_cell g L' raw_data [] = Completed st'"
  then show "st' = final (s2ef_loop g (get_tags L' (hd raw_data))
                       (enumerate 0 (convert_all L' raw_data)) [])
              @ [(''length'', pickle_dumps (IntObj (length raw_data)))]"
    by (rule s2ef_cell_completed)
qed

text \<open>
  Claim C1 as stated, for every put of the S2EF cell: false on a trajectory of three frames,
  where the cell also writes the key \<open>length\<close>, which is not the text of an integer and
  whose value is the pickled integer \<open>3\<close>.
\<close>

theorem every_put_record_counterexample:
  "\<not> list_all s2ef_entry (final (s2ef_cell creation_globals demo_libs [0, 1, 2] []))
   \<and> map_of (final (s2ef_cell creation_globals demo_libs [0, 1, 2] [])) ''length''
       = Some (pickle_dumps (IntObj 3))
   \<and> \<not> list_all is_digit ''length''"
  by code_simp

text \<open>
  The S2EF cell completes on three frames with neighbours and its store ends with the
  \<open>length\<close> entry; the first entry of the IS2RE store and the first entry of the S2EF store
  are the records built for the first image.
\<close>

theorem loop_puts_keyed_by_index_witness:
  "s2ef_cell creation_globals demo_libs [0, 1, 2] []
      = Completed (final (s2ef_cell creation_globals demo_libs [0, 1, 2] []))
   \<and> final (s2ef_cell creation_globals demo_libs [0, 1, 2] [])
      = final (s2ef_loop creation_globals (get_tags demo_libs (hd [0, 1, 2]))
                 (enumerate 0 (convert_all demo_libs [0, 1, 2])) [])
          @ [(''length'', pickle_dumps (IntObj (length [0 :: nat, 1, 2])))]
   \<and> hd (db (final (is2re_cell creation_globals demo_libs system_paths [])))
        \<in> set (db (final (is2re_cell creation_globals demo_libs system_paths [])))
   \<and> (\<exists>system \<in> set system_paths. \<exists>i a traj.
          ase_io_read demo_libs system = Inr (a # traj) \<and>
          hd (db (final (is2re_cell creation_globals demo_libs system_paths []))) =
            (key_of i, pickle_dumps (DataObj ((a2g_convert demo_libs a)
                \<lparr>tags := Some (get_tags demo_libs a), y_init := y (a2g_convert demo_libs a),
                 y := None,
                 y_relaxed := y (a2g_convert demo_libs (last (a # traj))),
                 pos_relaxed := Some (pos (a2g_convert demo_libs (last (a # traj)))),
                 sid := Some (PyInt i)\<rparr>))))
   \<and> hd (final (s2ef_loop creation_globals [3, 2, 1, 0, 0] (enumerate 0 [frame_with_edges]) []))
        \<in> set (final (s2ef_loop creation_globals [3, 2, 1, 0, 0]
                       (enumerate 0 [frame_with_edges]) []))
   \<and> (\<exists>i<length [frame_with_edges].
          hd (final (s2ef_loop creation_globals [3, 2, 1, 0, 0]
                       (enumerate 0 [frame_with_edges]) [])) =
            (key_of i, pickle_dumps (DataObj (([frame_with_edges] ! i)
                \<lparr>sid := Some (LongTensor [0]), fid := Some (LongTensor [i]),
                 tags := Some [3, 2, 1, 0, 0]\<rparr>))))"
proof -
  let ?S1 = "db (final (is2re_cell creation_globals demo_libs system_paths []))"
  let ?S2 = "final (s2ef_loop creation_globals [3, 2, 1, 0, 0] (enumerate 0 [frame_with_edges]) [])"
  have c: "s2ef_cell creation_globals demo_libs [0, 1, 2] []
      = Completed (final (s2ef_cell creation_globals demo_libs [0, 1, 2] []))"
    by code_simp
  have n1: "?S1 \<noteq> []"
    by code_simp
  have n2: "?S2 \<noteq> []"
    by code_simp
  have m1: "hd ?S1 \<in> set ?S1"
    using n1 by (rule hd_in_set)
  have m2: "hd ?S2 \<in> set ?S2"
    using n2 by (rule hd_in_set)
  have e: "hd ?S1 \<notin> set []" "hd ?S2 \<notin> set []"
    by simp_all
  note t = loop_puts_keyed_by_index
    [where ?db0.0 = "[]" and g = creation_globals and L = demo_libs and systems = system_paths
       and tgs = "[3, 2, 1, 0, 0]" and ds = "[frame_with_edges]" and L' = demo_libs
       and raw_data = "[0, 1, 2]"
       and st' = "final (s2ef_cell creation_globals demo_libs [0, 1, 2] [])"]
  from t c m1 m2 e show ?thesis by blast
qed

subsection \<open>The loops and their linear versions\<close>

lemma is2re_loop_eq_linear:
  "\<forall>system \<in> set systems. \<forall>i r. is2re_record L system i = Inr r \<longrightarrow> edge_index r \<noteq> []
    \<Longrightarrow> is2re_loop g L systems st = is2re_loop_linear L systems st"
proof (induction systems arbitrary: st)
  case Nil
  then show ?case by simp
next
  case (Cons system rest)
  show ?case
  proof (cases "is2re_record L system (idx st)")
    case (Inl e)
    then show ?thesis by simp
  next
    case (Inr r)
    then have "edge_index r \<noteq> []" using Cons.prems by auto
    then show ?thesis using Inr Cons by simp
  qed
qed

lemma s2ef_loop_eq_linear:
  "\<forall>p \<in> set frames. edge_index (snd p) \<noteq> []
    \<Longrightarrow> s2ef_loop g tgs frames st = s2ef_loop_linear tgs frames st"
proof (induction frames arbitrary: st)
  case Nil
  then show ?case by simp
next
  case (Cons p rest)
  obtain i d where p: "p = (i, d)" by (cases p)
  from Cons show ?case
    by (simp add: p Let_def s2ef_record_edge_index)
qed

subsection \<open>C4: the only conditions inspected are the two zero-neighbour checks\<close>

text \<open>
  Claim C4, as amended. No statement of a code cell of the ten notebooks is a \<open>try\<close>, a
  \<open>while\<close>, a \<open>raise\<close> or an \<open>assert\<close>: the notebooks hold no statement that catches an
  exception, tries again, or gives up on a condition of their own. Exactly two statements
  inspect a condition in order to branch, both in the dataset-creation notebook: the
  no-neighbour checks \<open>if initial_struc.edge_index.shape[1] == 0\<close> (line 194) and
  \<open>if data.edge_index.shape[1] == 0\<close> (line 289) of the two store-writing loops, each
  holding a \<open>print\<close> and a \<open>continue\<close> and no \<open>else\<close> block. The only other conditions are
  the filters \<open>atom.tag == 0\<close> and \<open>atom.tag == 3\<close> of the list comprehensions that select
  the atoms to hold fixed. For each notebook the first part lists its handling statements,
  its \<open>if\<close> statements and its filters. Whenever every record built from the input has at
  least one edge, each of the two loops behaves exactly as the same statements without the
  check (second and third part).
\<close>

theorem only_the_two_checks:
  "map (\<lambda>(name, cells). (name, handlers_of cells, checks_of cells, filters_of cells)) notebook_code
     = [(''background'', [], [], []),
        (''relaxations'', [], [], [''atom.tag == 0'']),
        (''ase_calculator_demo'', [], [], [''atom.tag == 0'']),
        (''ase_calculator_demo_oc22'', [], [], [''atom.tag == 0'']),
        (''interacting_with_datasets'', [], [], []),
        (''ocp_tasks'', [], [], []),
        (''s2ef'', [], [], []),
        (''is2re'', [], [], []),
        (''data_preprocessing'', [], [], [''atom.tag == 3'']),
        (''lmdb_dataset_creation'', [],
         [IfStmt 194 ''initial_struc.edge_index.shape[1] == 0''
            [Simple 195 Expr [], Simple 196 Continue []] [],
          IfStmt 289 ''data.edge_index.shape[1] == 0''
            [Simple 290 Expr [], Simple 291 Continue []] []],
         [''atom.tag == 3''])]
   \<and> ((\<forall>system \<in> set systems. \<forall>i r. is2re_record L system i = Inr r \<longrightarrow> edge_index r \<noteq> [])
      \<longrightarrow> is2re_loop g L systems st = is2re_loop_linear L systems st)
   \<and> ((\<forall>p \<in> set frames. edge_index (snd p) \<noteq> [])
      \<longrightarrow> s2ef_loop g tgs frames db0 = s2ef_loop_linear tgs frames db0)"
proof -
  have "map (\<lambda>(name, cells). (name, handlers_of cells, checks_of cells, filters_of cells)) notebook_code
     = [(''background'', [], [], []),
        (''relaxations'', [], [], [''atom.tag == 0'']),
        (''ase_calculator_demo'', [], [], [''atom.tag == 0'']),
        (''ase_calculator_demo_oc22'', [], [], [''atom.tag == 0'']),
        (''interacting_with_datasets'', [], [], []),
        (''ocp_tasks'', [], [], []),
        (''s2ef'', [], [], []),
        (''is2re'', [], [], []),
        (''data_preprocessing'', [], [], [''atom.tag == 3'']),
        (''lmdb_dataset_creation'', [],
         [IfStmt 194 ''initial_struc.edge_index.shape[1] == 0''
            [Simple 195 Expr [], Simple 196 Continue []] [],
          IfStmt 289 ''data.edge_index.shape[1] == 0''
            [Simple 290 Expr [], Simple 291 Continue []] []],
         [''atom.tag == 3''])]"
    by code_simp
  then show ?thesis
    using is2re_loop_eq_linear [of systems L g st] s2ef_loop_eq_linear [of frames g tgs db0]
    by blast
qed

text \<open>
  Two systems, the second a missing file: every record has edges, and the loop of the source
  agrees with the linear script. So does the S2EF loop on a frame with edges.
\<close>

lemma demo_libs_records_have_edges:
  "is2re_record demo_libs system i = Inr r \<Longrightarrow> edge_index r \<noteq> []"
  by (auto simp: is2re_record_def read_trajectory_extract_features_def demo_libs_def
      convert_all_def Let_def split: if_splits)

theorem only_the_two_checks_witness:
  "is2re_loop creation_globals demo_libs [''CuCO_adslab.traj'', ''nofile.traj''] \<lparr>db = [], idx = 0\<rparr>
      = is2re_loop_linear demo_libs [''CuCO_adslab.traj'', ''nofile.traj''] \<lparr>db = [], idx = 0\<rparr>
   \<and> s2ef_loop creation_globals [3, 2, 1, 0, 0] [(0, frame_with_edges)] []
      = s2ef_loop_linear [3, 2, 1, 0, 0] [(0, frame_with_edges)] []"
proof -
  let ?systems = "[''CuCO_adslab.traj'', ''nofile.traj'']"
  let ?st0 = "\<lparr>db = [], idx = 0\<rparr> :: int wstate"
  have h1: "\<forall>system \<in> set ?systems. \<forall>i r.
      is2re_record demo_libs system i = Inr r \<longrightarrow> edge_index r \<noteq> []"
    using demo_libs_records_have_edges by blast
  have h2: "\<forall>p \<in> set [(0 :: nat, frame_with_edges)]. edge_index (snd p) \<noteq> []"
    by (simp add: frame_with_edges_def)
  note t = only_the_two_checks
    [of ?systems demo_libs creation_globals ?st0 "[(0, frame_with_edges)]" "[3, 2, 1, 0, 0]" "[]"]
  from t h1 h2 show ?thesis by blast
qed

text \<open>
  Claim C4 as stated, that no code path inspects a condition so as to branch around a
  failure mode and that every failure is an exception of the libraries: false on a system
  whose initial image has no neighbour. The loop of the source tests the edge set, leaves the
  store empty and stops in its own branch, with the \<open>NameError\<close> of the interpreter and no
  exception of a library, where the linear script writes the record.
\<close>

theorem no_edge_case_policy_counterexample:
  "is2re_loop creation_globals sparse_libs system_paths \<lparr>db = [], idx = 0\<rparr>
      = Raised (NameError ''traj_path'') \<lparr>db = [], idx = 0\<rparr>
   \<and> is2re_loop_linear sparse_libs system_paths \<lparr>db = [], idx = 0\<rparr>
      = Completed \<lparr>db = [(''0'', pickle_dumps (DataObj
            \<lparr>pos = 0, edge_index = [], y = None, tags = Some [3, 2, 1, 0, 0],
             sid = Some (PyInt 0), fid = None, y_init = Some 0, y_relaxed = Some (- 2),
             pos_relaxed = Some 2\<rparr>))], idx = 1\<rparr>"
  by code_simp

subsection \<open>C5: the demos round-trip through the store\<close>

text \<open>
  What a completed IS2RE loop leaves in the store, whatever the store held before: the
  record built for system \<open>j\<close> under the decimal key of \<open>idx + j\<close>, the keys it held before
  together with the keys written, and one entry per key if that was so before.
\<close>

lemma is2re_completed_general:
  assumes "is2re_loop creation_globals L systems st = Completed st'"
  shows "(\<forall>j<length systems. \<exists>r. is2re_record L (systems ! j) (idx st + j) = Inr r
            \<and> map_of (db st') (key_of (idx st + j)) = Some (pickle_dumps (DataObj r)))
    \<and> fst ` set (db st') = fst ` set (db st) \<union> key_of ` {idx st..<idx st'}
    \<and> (distinct (map fst (db st)) \<longrightarrow> distinct (map fst (db st')))"
  using assms
proof (induction systems arbitrary: st)
  case Nil
  then show ?case by simp
next
  case (Cons system rest)
  from Cons.prems obtain r where r: "is2re_record L system (idx st) = Inr r"
    by (cases "is2re_record L system (idx st)") auto
  let ?v = "pickle_dumps (DataObj r)"
  let ?st2 = "st\<lparr>db := txn_put (key_of (idx st)) ?v (db st), idx := idx st + 1\<rparr>"
  have edges: "edge_index r \<noteq> []"
    using Cons.prems r by (auto simp: traj_path_unbound split: if_splits)
  then have loop2: "is2re_loop creation_globals L rest ?st2 = Completed st'"
    using Cons.prems r by simp
  note IH = Cons.IH [OF loop2]
  have n': "idx st' = idx ?st2 + length rest"
    by (rule is2re_completed_idx [OF loop2])
  have st': "st' = final (is2re_loop creation_globals L rest ?st2)"
    using loop2 by simp
  have "key_of (idx st) \<notin> key_of ` {idx ?st2..<idx st'}"
    by (auto simp: key_of_inj)
  then have "map_of (db st') (key_of (idx st)) = map_of (db ?st2) (key_of (idx st))"
    using is2re_loop_writes [of ?st2 creation_globals L rest] unfolding st' by blast
  then have at0: "map_of (db st') (key_of (idx st)) = Some ?v"
    by (simp add: txn_put_def update_conv')
  have p1: "\<exists>r'. is2re_record L ((system # rest) ! j) (idx st + j) = Inr r'
          \<and> map_of (db st') (key_of (idx st + j)) = Some (pickle_dumps (DataObj r'))"
    if lt: "j < length (system # rest)" for j
  proof (cases j)
    case 0
    then show ?thesis using r at0 by simp
  next
    case (Suc j')
    then have "j' < length rest" using lt by simp
    with IH obtain r' where "is2re_record L (rest ! j') (idx ?st2 + j') = Inr r'"
      "map_of (db st') (key_of (idx ?st2 + j')) = Some (pickle_dumps (DataObj r'))"
      by blast
    then show ?thesis using Suc by simp
  qed
  have "fst ` set (db ?st2) = {key_of (idx st)} \<union> fst ` set (db st)"
    by (simp add: txn_put_def dom_update)
  moreover have "{idx st..<idx st'} = insert (idx st) {idx ?st2..<idx st'}"
    using n' by auto
  ultimately have p2: "fst ` set (db st') = fst ` set (db st) \<union> key_of ` {idx st..<idx st'}"
    using IH by auto
  have p3: "distinct (map fst (db st'))" if "distinct (map fst (db st))"
  proof -
    have "distinct (map fst (db ?st2))"
      using that by (simp add: txn_put_def distinct_update)
    then show ?thesis using IH by blast
  qed
  from p1 p2 p3 show ?case by blast
qed

lemma is2re_read_back:
  fixes L :: "('a, 't) libs"
  assumes one: "distinct (map fst (lmdb_open files ''sample_CuCO.lmdb''))"
    and old: "\<forall>k \<in> fst ` set (lmdb_open files ''sample_CuCO.lmdb''). \<exists>i<length systems. k = key_of i"
    and compl: "is2re_demo creation_globals L systems files = Completed files'"
  shows "\<exists>ds. SinglePointLmdbDataset files' ''sample_CuCO.lmdb'' = Inr ds
      \<and> single_point_len ds = length systems
      \<and> (\<forall>i<length systems. \<exists>r. is2re_record L (systems ! i) i = Inr r
            \<and> single_point_getitem ds i = Inr (DataObj r))"
proof -
  let ?db0 = "lmdb_open files ''sample_CuCO.lmdb''"
  let ?st0 = "\<lparr>db = ?db0, idx = 0\<rparr>"
  from compl obtain st where
    loop: "is2re_loop creation_globals L systems ?st0 = Completed st"
    and files': "files' = lmdb_close files ''sample_CuCO.lmdb'' (db st)"
    by (auto simp: is2re_demo_def is2re_cell_def split: outcome.splits)
  have n: "idx st = length systems"
    using is2re_completed_idx [OF loop] by simp
  note g = is2re_completed_general [OF loop]
  have "fst ` set (db st) = fst ` set ?db0 \<union> key_of ` {0..<length systems}"
    using g n by simp
  moreover have "fst ` set ?db0 \<subseteq> key_of ` {0..<length systems}"
    using old by auto
  ultimately have keys: "fst ` set (db st) = key_of ` {0..<length systems}"
    by blast
  have dist: "distinct (map fst (db st))"
    using g one by simp
  have "length (db st) = card (set (map fst (db st)))"
    using distinct_card [OF dist] by simp
  also have "\<dots> = card (key_of ` {0..<length systems})"
    using keys by simp
  also have "\<dots> = length systems"
    by (simp add: card_image inj_on_def key_of_inj)
  finally have len: "length (db st) = length systems" .
  have "SinglePointLmdbDataset files' ''sample_CuCO.lmdb'' = Inr (db st)"
    by (simp add: SinglePointLmdbDataset_def files' lmdb_close_def update_conv')
  moreover have "single_point_len (db st) = length systems"
    by (simp add: single_point_len_def len)
  moreover have "\<exists>r. is2re_record L (systems ! i) i = Inr r
      \<and> single_point_getitem (db st) i = Inr (DataObj r)" if lt: "i < length systems" for i
  proof -
    from g lt obtain r where r: "is2re_record L (systems ! i) i = Inr r"
      "map_of (db st) (key_of i) = Some (pickle_dumps (DataObj r))"
      by auto
    then have "single_point_getitem (db st) i = Inr (DataObj r)"
      using lt len by (simp add: single_point_getitem_def pickle_dumps_def)
    with r(1) show ?thesis by blast
  qed
  ultimately show ?thesis by blast
qed

lemma s2ef_loop_frame:
  "k \<notin> key_of ` fst ` set frames
    \<Longrightarrow> map_of (final (s2ef_loop g tgs frames st)) k = map_of st k"
proof (induction frames arbitrary: st)
  case Nil
  then show ?case by simp
next
  case (Cons p rest)
  obtain i d where p: "p = (i, d)" by (cases p)
  have k: "k \<noteq> key_of i" "k \<notin> key_of ` fst ` set rest"
    using Cons.prems by (auto simp: p)
  show ?case
    using Cons.IH [OF k(2)] k(1)
    by (simp add: p Let_def txn_put_def update_conv')
qed

lemma s2ef_completed_map:
  assumes "s2ef_loop creation_globals tgs (enumerate n ds) st = Completed st'"
  shows "\<forall>j. n \<le> j \<and> j < n + length ds \<longrightarrow>
      map_of st' (key_of j) = Some (pickle_dumps (DataObj (s2ef_record tgs j (ds ! (j - n)))))"
  using assms
proof (induction ds arbitrary: n st)
  case Nil
  then show ?case by auto
next
  case (Cons d ds)
  let ?v = "pickle_dumps (DataObj (s2ef_record tgs n d))"
  let ?st2 = "txn_put (key_of n) ?v st"
  have edges: "edge_index d \<noteq> []"
    using Cons.prems
    by (auto simp: Let_def traj_path_unbound s2ef_record_edge_index split: if_splits)
  then have loop2: "s2ef_loop creation_globals tgs (enumerate (Suc n) ds) ?st2 = Completed st'"
    using Cons.prems by (simp add: Let_def s2ef_record_edge_index)
  note IH = Cons.IH [OF loop2]
  have "key_of n \<notin> key_of ` fst ` set (enumerate (Suc n) ds)"
    by (auto simp: key_of_inj in_set_enumerate_eq)
  then have "map_of (final (s2ef_loop creation_globals tgs (enumerate (Suc n) ds) ?st2)) (key_of n)
      = map_of ?st2 (key_of n)"
    by (rule s2ef_loop_frame)
  then have at0: "map_of st' (key_of n) = Some ?v"
    using loop2 by (simp add: txn_put_def update_conv')
  show ?case
  proof (intro allI impI)
    fix j
    assume j: "n \<le> j \<and> j < n + length (d # ds)"
    show "map_of st' (key_of j)
        = Some (pickle_dumps (DataObj (s2ef_record tgs j ((d # ds) ! (j - n)))))"
    proof (cases "j = n")
      case True
      then show ?thesis using at0 by simp
    next
      case False
      then have "Suc n \<le> j \<and> j < Suc n + length ds"
        using j by simp
      then have "map_of st' (key_of j)
          = Some (pickle_dumps (DataObj (s2ef_record tgs j (ds ! (j - Suc n)))))"
        using IH by blast
      moreover have "(d # ds) ! (j - n) = ds ! (j - Suc n)"
        using False j by (simp add: nth_Cons' Suc_diff_Suc)
      ultimately show ?thesis by simp
    qed
  qed
qed


lemma filter_none: "\<forall>f \<in> set files. \<not> P (fst f) \<Longrightarrow> filter (\<lambda>f. P (fst f)) files = []"
  by (induction files) auto

lemma filter_own_dir:
  assumes "distinct (map fst files)"
    and "\<forall>f \<in> set files. in_dir src (fst f) \<longrightarrow> fst f = path"
    and "in_dir src path"
  shows "filter (\<lambda>f. in_dir src (fst f)) (AList.update path s files) = [(path, s)]"
  using assms(1,2)
proof (induction files)
  case Nil
  then show ?case using assms(3) by simp
next
  case (Cons f rest)
  obtain p x where f: "f = (p, x)" by (cases f)
  show ?case
  proof (cases "p = path")
    case True
    then have "path \<notin> fst ` set rest"
      using Cons.prems(1) by (simp add: f)
    then have "\<forall>f' \<in> set rest. \<not> in_dir src (fst f')"
      using Cons.prems(2) by force
    then have "filter (\<lambda>f. in_dir src (fst f)) rest = []"
      by (rule filter_none)
    then show ?thesis
      using True assms(3) by (simp add: f)
  next
    case False
    then have "\<not> in_dir src p"
      using Cons.prems(2) by (auto simp: f)
    then show ?thesis
      using False Cons by (simp add: f)
  qed
qed

lemma s2ef_read_back:
  fixes L :: "('a, 't) libs"
  assumes paths: "distinct (map fst files)"
    and own: "\<forall>f \<in> set files. in_dir ''s2ef/'' (fst f) \<longrightarrow> fst f = ''s2ef/sample_CuCO.lmdb''"
    and compl: "s2ef_demo creation_globals L raw_data files = Completed files'"
  shows "\<exists>ds. TrajectoryLmdbDataset files' ''s2ef/'' = Inr ds
      \<and> trajectory_len ds = length raw_data
      \<and> (\<forall>i<length raw_data. trajectory_getitem ds i
            = Inr (DataObj (s2ef_record (get_tags L (hd raw_data)) i (a2g_convert L (raw_data ! i)))))"
proof -
  let ?path = "''s2ef/sample_CuCO.lmdb''"
  let ?tgs = "get_tags L (hd raw_data)"
  let ?n = "length raw_data"
  let ?db0 = "lmdb_open files ?path"
  let ?frames = "enumerate 0 (convert_all L raw_data)"
  from compl obtain st where
    cell: "s2ef_cell creation_globals L raw_data ?db0 = Completed st"
    and files': "files' = lmdb_close files ?path st"
    by (auto simp: s2ef_demo_def split: outcome.splits)
  from cell obtain st1 where
    loop: "s2ef_loop creation_globals ?tgs ?frames ?db0 = Completed st1"
    by (cases raw_data) (auto simp: s2ef_cell_def Let_def split: outcome.splits)
  have st: "st = txn_put ''length'' (pickle_dumps (IntObj ?n)) st1"
    using s2ef_cell_completed_put [OF cell] loop by simp
  have shard: "shard_length st = Inr ?n"
    by (simp add: shard_length_def st txn_put_def update_conv' pickle_dumps_def)
  have "filter (\<lambda>f. in_dir ''s2ef/'' (fst f)) files' = [(?path, st)]"
    unfolding files' lmdb_close_def
    by (rule filter_own_dir [OF paths own]) (simp add: in_dir_def)
  then have ds: "TrajectoryLmdbDataset files' ''s2ef/'' = Inr [(st, ?n)]"
    by (simp add: TrajectoryLmdbDataset_def shard)
  have len: "trajectory_len [(st, ?n)] = ?n"
    by (simp add: trajectory_len_def)
  have item: "trajectory_getitem [(st, ?n)] i
      = Inr (DataObj (s2ef_record ?tgs i (a2g_convert L (raw_data ! i))))" if lt: "i < ?n" for i
  proof -
    have "map_of st1 (key_of i)
        = Some (pickle_dumps (DataObj (s2ef_record ?tgs i (convert_all L raw_data ! (i - 0)))))"
      using s2ef_completed_map [OF loop] lt by (simp add: convert_all_def)
    moreover have "key_of i \<noteq> ''length''"
      using length_not_index_key [of i] by simp
    ultimately have "map_of st (key_of i)
        = Some (pickle_dumps (DataObj (s2ef_record ?tgs i (a2g_convert L (raw_data ! i)))))"
      using lt by (simp add: st txn_put_def update_conv' convert_all_def)
    then show ?thesis
      using lt by (simp add: pickle_dumps_def)
  qed
  from ds len item show ?thesis by blast
qed

text \<open>
  Claim C5, as amended. A store holds one entry per key and a disk one file per path. When
  the file \<open>sample_CuCO.lmdb\<close> is new, or holds only keys that the run writes again (as on a
  second run over the same systems), and the IS2RE demo (open, write, close) completes,
  \<open>SinglePointLmdbDataset\<close> over that file has as many items as records were written, one
  per system, and item \<open>i\<close> is the record that the loop built and stored for system \<open>i\<close>.
  When no store file other than \<open>s2ef/sample_CuCO.lmdb\<close> lies under \<open>s2ef/\<close>, whatever that
  file held before, and the S2EF demo completes, \<open>TrajectoryLmdbDataset\<close> over the directory
  has as many items as frames were written, and item \<open>i\<close> is the record stored for frame
  \<open>i\<close>. The two readers are the external framework's; they are the definitions modelled
  from the specification.
\<close>

theorem store_round_trip:
  fixes L :: "('a, 't) libs"
  shows "(distinct (map fst (lmdb_open files ''sample_CuCO.lmdb'')) \<longrightarrow>
      (\<forall>k \<in> fst ` set (lmdb_open files ''sample_CuCO.lmdb''). \<exists>i<length systems. k = key_of i) \<longrightarrow>
      is2re_demo creation_globals L systems files = Completed files' \<longrightarrow>
      (\<exists>ds. SinglePointLmdbDataset files' ''sample_CuCO.lmdb'' = Inr ds
        \<and> single_point_len ds = length systems
        \<and> (\<forall>i<length systems. \<exists>r. is2re_record L (systems ! i) i = Inr r
              \<and> single_point_getitem ds i = Inr (DataObj r))))
   \<and> (distinct (map fst dir) \<longrightarrow>
      (\<forall>f \<in> set dir. in_dir ''s2ef/'' (fst f) \<longrightarrow> fst f = ''s2ef/sample_CuCO.lmdb'') \<longrightarrow>
      s2ef_demo creation_globals L raw_data dir = Completed dir' \<longrightarrow>
      (\<exists>ds. TrajectoryLmdbDataset dir' ''s2ef/'' = Inr ds
        \<and> trajectory_len ds = length raw_data
        \<and> (\<forall>i<length raw_data. trajectory_getitem ds i
              = Inr (DataObj (s2ef_record (get_tags L (hd raw_data)) i
                               (a2g_convert L (raw_data ! i)))))))"
  using is2re_read_back [of files systems L files'] s2ef_read_back [of dir L raw_data dir']
  by blast

text \<open>
  A second run of each demo over what an earlier run left: the IS2RE demo over the file that
  holds the key \<open>0\<close> already, the S2EF demo with three frames over the file that an
  earlier run with four frames wrote. One record is read back from the single file, three
  from the directory, the third being the record stored for the third frame.
\<close>

theorem store_round_trip_witness:
  "(\<exists>ds. SinglePointLmdbDataset
            (final (is2re_demo creation_globals demo_libs system_paths
                      (final (is2re_demo creation_globals demo_libs system_paths []))))
            ''sample_CuCO.lmdb'' = Inr ds
        \<and> single_point_len ds = 1
        \<and> (\<exists>r. is2re_record demo_libs (system_paths ! 0) 0 = Inr r
              \<and> single_point_getitem ds 0 = Inr (DataObj r)))
   \<and> (\<exists>ds. TrajectoryLmdbDataset
            (final (s2ef_demo creation_globals demo_libs [0, 1, 2]
                      (final (s2ef_demo creation_globals demo_libs [0, 1, 2, 2] []))))
            ''s2ef/'' = Inr ds
        \<and> trajectory_len ds = 3
        \<and> trajectory_getitem ds 2
              = Inr (DataObj (s2ef_record (get_tags demo_libs (hd [0, 1, 2])) 2
                               (a2g_convert demo_libs ([0, 1, 2] ! 2)))))"
proof -
  let ?d1 = "final (is2re_demo creation_globals demo_libs system_paths [])"
  let ?f1 = "final (is2re_demo creation_globals demo_libs system_paths ?d1)"
  let ?d2 = "final (s2ef_demo creation_globals demo_libs [0, 1, 2, 2] [])"
  let ?f2 = "final (s2ef_demo creation_globals demo_libs [0, 1, 2] ?d2)"
  have k1: "map fst (lmdb_open ?d1 ''sample_CuCO.lmdb'') = [''0'']"
    by code_simp
  have n1: "length system_paths = 1"
    by (simp add: system_paths_def)
  have h1: "distinct (map fst (lmdb_open ?d1 ''sample_CuCO.lmdb''))"
    unfolding k1 by simp
  have h2: "\<forall>k \<in> fst ` set (lmdb_open ?d1 ''sample_CuCO.lmdb'').
      \<exists>i<length system_paths. k = key_of i"
    unfolding set_map [symmetric] k1 n1 by (simp add: key_of_0)
  have h3: "is2re_demo creation_globals demo_libs system_paths ?d1 = Completed ?f1"
    by code_simp
  have k2: "map fst ?d2 = [''s2ef/sample_CuCO.lmdb'']"
    by code_simp
  have h4: "distinct (map fst ?d2)"
    unfolding k2 by simp
  have "\<forall>k \<in> fst ` set ?d2. k = ''s2ef/sample_CuCO.lmdb''"
    unfolding set_map [symmetric] k2 by simp
  then have h5: "\<forall>f \<in> set ?d2. in_dir ''s2ef/'' (fst f) \<longrightarrow> fst f = ''s2ef/sample_CuCO.lmdb''"
    by (rule_tac ballI) (rule impI, erule bspec, erule imageI)
  have h6: "s2ef_demo creation_globals demo_libs [0, 1, 2] ?d2 = Completed ?f2"
    by code_simp
  note t = store_round_trip [of ?d1 system_paths demo_libs ?f1 ?d2 "[0, 1, 2]" ?f2]
  note t1 = t [THEN conjunct1, THEN mp, OF h1, THEN mp, OF h2, THEN mp, OF h3]
  note t2 = t [THEN conjunct2, THEN mp, OF h4, THEN mp, OF h5, THEN mp, OF h6]
  from t1 obtain ds1 where a1: "SinglePointLmdbDataset ?f1 ''sample_CuCO.lmdb'' = Inr ds1"
    and a2: "single_point_len ds1 = length system_paths"
    and a3: "\<forall>i<length system_paths. \<exists>r. is2re_record demo_libs (system_paths ! i) i = Inr r
          \<and> single_point_getitem ds1 i = Inr (DataObj r)"
    by (elim exE conjE)
  from a3 n1 have a4: "\<exists>r. is2re_record demo_libs (system_paths ! 0) 0 = Inr r
          \<and> single_point_getitem ds1 0 = Inr (DataObj r)"
    by simp
  from t2 obtain ds2 where b1: "TrajectoryLmdbDataset ?f2 ''s2ef/'' = Inr ds2"
    and b2: "trajectory_len ds2 = length [0 :: nat, 1, 2]"
    and b3: "\<forall>i<length [0 :: nat, 1, 2]. trajectory_getitem ds2 i
              = Inr (DataObj (s2ef_record (get_tags demo_libs (hd [0, 1, 2])) i
                               (a2g_convert demo_libs ([0, 1, 2] ! i))))"
    by (elim exE conjE)
  from b2 have b2': "trajectory_len ds2 = 3"
    by simp
  have b4: "trajectory_getitem ds2 2
              = Inr (DataObj (s2ef_record (get_tags demo_libs (hd [0, 1, 2])) 2
                               (a2g_convert demo_libs ([0, 1, 2] ! 2))))"
    by (rule b3 [rule_format]) simp
  show ?thesis
    apply (rule conjI)
     apply (rule exI [of _ ds1])
     apply (intro conjI a1 a4)
     apply (simp only: a2 n1)
    apply (rule exI [of _ ds2])
    apply (intro conjI b1 b2' b4)
    done
qed

text \<open>
  Claim C5 as stated, for every run of the demos, is false. The store is opened, not
  created: a key that the file held already and that the run does not write again is
  still an entry of it, and a store file that lay under \<open>s2ef/\<close> already is still a file of
  the directory. Over \<open>stale_disk\<close> the IS2RE demo writes one record and the dataset read
  back has two items; over \<open>old_shard_disk\<close> the S2EF demo writes three frames and the
  dataset read back has four items.
\<close>

theorem stale_store_counterexample:
  "is2re_demo creation_globals demo_libs system_paths stale_disk
      = Completed (final (is2re_demo creation_globals demo_libs system_paths stale_disk))
   \<and> length system_paths = 1
   \<and> (case SinglePointLmdbDataset
              (final (is2re_demo creation_globals demo_libs system_paths stale_disk))
              ''sample_CuCO.lmdb'' of
         Inl e \<Rightarrow> 0 | Inr ds \<Rightarrow> single_point_len ds) = 2
   \<and> s2ef_demo creation_globals demo_libs [0, 1, 2] old_shard_disk
      = Completed (final (s2ef_demo creation_globals demo_libs [0, 1, 2] old_shard_disk))
   \<and> length [0 :: nat, 1, 2] = 3
   \<and> (case TrajectoryLmdbDataset
              (final (s2ef_demo creation_globals demo_libs [0, 1, 2] old_shard_disk))
              ''s2ef/'' of
         Inl e \<Rightarrow> 0 | Inr ds \<Rightarrow> trajectory_len ds) = 4"
  by code_simp

subsection \<open>C2: which notebooks download\<close>

lemma fetched_tar_xzvf [simp]: "fetched (tar_xzvf cwd archive members w) = fetched w"
  by (simp add: tar_xzvf_def)

lemma fetched_rm [simp]: "fetched (rm f w) = fetched w"
  by (simp add: rm_def)

lemma fetched_mkdir [simp]: "fetched (mkdir d w) = fetched w"
  by (simp add: mkdir_def)

lemma fetched_wget:
  "fetched (wget nc url out w) =
    (if nc \<and> out \<in> set (on_disk w) then fetched w else fetched w @ [url])"
  by (simp add: wget_def)

lemma on_disk_mkdir: "set (on_disk (mkdir d w)) = insert d (set (on_disk w))"
  by (simp add: mkdir_def)

text \<open>
  Claim C2, as amended. Run on a fresh checkout, five of the ten notebooks request a fixed
  asset from a URL written in the notebook: \<open>ase_calculator_demo\<close> and
  \<open>ase_calculator_demo_oc22\<close> a model checkpoint, \<open>interacting_with_datasets\<close>, \<open>s2ef\<close> and
  \<open>is2re\<close> the archive of sample datasets; the other five request nothing (first part, the
  requests of each notebook). In any state of the disk, the four notebooks that pass \<open>-nc\<close> to
  \<open>wget\<close> request their asset exactly when the output file is not there yet, and
  \<open>interacting_with_datasets\<close> requests the archive always (remaining parts).
\<close>

theorem notebook_downloads:
  "map (\<lambda>p. (fst p, fetched (snd p fresh))) (tutorial_notebooks members) =
    [(''background'', []),
     (''relaxations'', []),
     (''ase_calculator_demo'', [gemnet_t_url]),
     (''ase_calculator_demo_oc22'', [gnoc_url]),
     (''interacting_with_datasets'', [tutorial_data_url]),
     (''ocp_tasks'', []),
     (''s2ef'', [tutorial_data_url]),
     (''is2re'', [tutorial_data_url]),
     (''data_preprocessing'', []),
     (''lmdb_dataset_creation'', [])]
   \<and> fetched (ase_calculator_demo w) =
        (if ''gemnet_t_direct_h512_all.pt'' \<in> set (on_disk w) then fetched w
         else fetched w @ [gemnet_t_url])
   \<and> fetched (ase_calculator_demo_oc22 w) =
        (if ''gnoc_oc22_oc20_all_s2ef.pt'' \<in> set (on_disk w) then fetched w
         else fetched w @ [gnoc_url])
   \<and> fetched (interacting_with_datasets members w) = fetched w @ [tutorial_data_url]
   \<and> fetched (s2ef members w) =
        (if ''data/tutorial_data.tar.gz'' \<in> set (on_disk w) then fetched w
         else fetched w @ [tutorial_data_url])
   \<and> fetched (is2re members w) =
        (if ''data/tutorial_data.tar.gz'' \<in> set (on_disk w) then fetched w
         else fetched w @ [tutorial_data_url])"
proof (intro conjI)
  show "map (\<lambda>p. (fst p, fetched (snd p fresh))) (tutorial_notebooks members) =
    [(''background'', []),
     (''relaxations'', []),
     (''ase_calculator_demo'', [gemnet_t_url]),
     (''ase_calculator_demo_oc22'', [gnoc_url]),
     (''interacting_with_datasets'', [tutorial_data_url]),
     (''ocp_tasks'', []),
     (''s2ef'', [tutorial_data_url]),
     (''is2re'', [tutorial_data_url]),
     (''data_preprocessing'', []),
     (''lmdb_dataset_creation'', [])]"
    by (simp add: tutorial_notebooks_def fresh_def background_def relaxations_def
        ase_calculator_demo_def ase_calculator_demo_oc22_def interacting_with_datasets_def
        ocp_tasks_def s2ef_def is2re_def data_preprocessing_def lmdb_dataset_creation_def
        fetched_wget on_disk_mkdir)
  show "fetched (ase_calculator_demo w) =
        (if ''gemnet_t_direct_h512_all.pt'' \<in> set (on_disk w) then fetched w
         else fetched w @ [gemnet_t_url])"
    by (simp add: ase_calculator_demo_def fetched_wget)
  show "fetched (ase_calculator_demo_oc22 w) =
        (if ''gnoc_oc22_oc20_all_s2ef.pt'' \<in> set (on_disk w) then fetched w
         else fetched w @ [gnoc_url])"
    by (simp add: ase_calculator_demo_oc22_def fetched_wget)
  show "fetched (interacting_with_datasets members w) = fetched w @ [tutorial_data_url]"
    by (simp add: interacting_with_datasets_def fetched_wget)
  show "fetched (s2ef members w) =
        (if ''data/tutorial_data.tar.gz'' \<in> set (on_disk w) then fetched w
         else fetched w @ [tutorial_data_url])"
    by (simp add: s2ef_def fetched_wget on_disk_mkdir)
  show "fetched (is2re members w) =
        (if ''data/tutorial_data.tar.gz'' \<in> set (on_disk w) then fetched w
         else fetched w @ [tutorial_data_url])"
    by (simp add: is2re_def fetched_wget on_disk_mkdir)
qed

text \<open>
  Claim C2 as stated, that every notebook downloads: false for \<open>relaxations\<close>, which
  requests nothing.
\<close>

theorem every_notebook_downloads_counterexample:
  "fetched (relaxations fresh) = []
   \<and> \<not> list_all (\<lambda>p. downloads (snd p)) (tutorial_notebooks [])"
  by (simp add: tutorial_notebooks_def downloads_def relaxations_def background_def fresh_def)

subsection \<open>C6: the table of contents\<close>

lemma positions_distinct:
  "distinct ds \<Longrightarrow> d \<in> set ds \<Longrightarrow> \<exists>i. positions d ds = [i]"
proof -
  assume dist: "distinct ds" and mem: "d \<in> set ds"
  then obtain i where i: "i < length ds" "ds ! i = d"
    by (auto simp: in_set_conv_nth)
  have "\<And>j. j < length ds \<Longrightarrow> (ds ! j = d) = (j = i)"
    using dist i by (auto simp: nth_eq_iff_index_eq)
  then have "filter (\<lambda>j. ds ! j = d) [0..<length ds] = filter (\<lambda>j. j = i) [0..<length ds]"
    by (intro filter_cong) auto
  also have "\<dots> = [i]"
    using i(1) by (induction ds rule: rev_induct) (auto simp: less_Suc_eq)
  finally show ?thesis by (auto simp: positions_def)
qed

text \<open>
  Claim C6. The table of contents declares one reading sequence for the site. It is rooted
  at the document \<open>intro\<close>, which comes first; its sixteen documents are pairwise distinct,
  so each listed document stands at exactly one position of the sequence; and the chapters
  are grouped into five parts, each with a caption.
\<close>

theorem toc_single_reading_sequence:
  "toc_root site_toc = ''intro''
   \<and> hd (reading_sequence site_toc) = ''intro''
   \<and> length (reading_sequence site_toc) = 16
   \<and> distinct (reading_sequence site_toc)
   \<and> (\<forall>d \<in> set (reading_sequence site_toc). \<exists>i. positions d (reading_sequence site_toc) = [i])
   \<and> length (parts site_toc) = 5
   \<and> list_all (\<lambda>p. caption p \<noteq> [] \<and> chapters p \<noteq> []) (parts site_toc)"
proof -
  have d: "distinct (reading_sequence site_toc)"
    by (simp add: reading_sequence_def site_toc_def)
  have "\<forall>d \<in> set (reading_sequence site_toc). \<exists>i. positions d (reading_sequence site_toc) = [i]"
    using positions_distinct [OF d] by blast
  moreover have "toc_root site_toc = ''intro''" "hd (reading_sequence site_toc) = ''intro''"
    "length (reading_sequence site_toc) = 16" "length (parts site_toc) = 5"
    "list_all (\<lambda>p. caption p \<noteq> [] \<and> chapters p \<noteq> []) (parts site_toc)"
    by (simp_all add: reading_sequence_def site_toc_def)
  ultimately show ?thesis using d by blast
qed

text \<open>The chapter \<open>s2ef\<close> is listed, and stands at one position.\<close>

theorem toc_single_reading_sequence_witness:
  "''notes/model_training/s2ef'' \<in> set (reading_sequence site_toc)
   \<and> (\<exists>i. positions ''notes/model_training/s2ef'' (reading_sequence site_toc) = [i])
   \<and> parts site_toc \<noteq> []"
proof -
  have m: "''notes/model_training/s2ef'' \<in> set (reading_sequence site_toc)"
    by (simp add: reading_sequence_def site_toc_def)
  have n: "parts site_toc \<noteq> []"
    by (simp add: site_toc_def)
  from toc_single_reading_sequence m n show ?thesis by blast
qed

subsection \<open>C3: the deployment workflow\<close>




subsection \<open>C10: the first trainer works on a copy of the model configuration\<close>

lemma respects_frameD:
  "respects_frame f \<Longrightarrow> a < length h \<Longrightarrow> a \<notin> set args
    \<Longrightarrow> a < length (f h args) \<and> f h args ! a = h ! a"
  unfolding respects_frame_def by blast

lemma create_and_train_model:
  assumes "respects_frame init" and "respects_frame train" and "well_formed s"
  shows "model s < length (heap (create_and_train init train s))
    \<and> heap (create_and_train init train s) ! model s = heap s ! model s"
proof -
  let ?h1 = "heap s @ [heap s ! model s]"
  let ?args = "[task s, length (heap s), dataset s, optimizer s]"
  have m: "model s < length (heap s)"
    using assms(3) by (simp add: well_formed_def)
  then have m1: "model s < length ?h1" "?h1 ! model s = heap s ! model s"
    by (simp_all add: nth_append)
  have notin: "model s \<notin> set ?args"
    using assms(3) m by (auto simp: well_formed_def)
  have s2: "model s < length (init ?h1 ?args) \<and> init ?h1 ?args ! model s = ?h1 ! model s"
    by (rule respects_frameD [OF assms(1) m1(1) notin])
  then have s3: "model s < length (train (init ?h1 ?args) ?args)
      \<and> train (init ?h1 ?args) ?args ! model s = init ?h1 ?args ! model s"
    by (intro respects_frameD [OF assms(2) _ notin]) simp
  have "heap (create_and_train init train s) = train (init ?h1 ?args) ?args"
    by (simp add: create_and_train_def deepcopy_def Let_def)
  then show ?thesis
    using s2 s3 m1(2) by simp
qed

lemma model_create_and_train [simp]: "model (create_and_train init train s) = model s"
  by (simp add: create_and_train_def Let_def split: prod.splits)

lemma dataset_create_and_train [simp]: "dataset (create_and_train init train s) = dataset s"
  by (simp add: create_and_train_def Let_def split: prod.splits)

lemma second_trainer_model_original:
  assumes "respects_frame init" and "respects_frame train" and "well_formed s"
  shows "second_trainer_model init train v s = heap s ! model s"
proof -
  have "model s \<noteq> dataset s"
    using assms(3) by (simp add: well_formed_def)
  then show ?thesis
    using create_and_train_model [OF assms]
    by (simp add: second_trainer_model_def append_test_set_def Let_def)
qed

lemma well_formed_s2ef_config: "well_formed (s2ef_config mean stdev)"
  by (simp add: well_formed_def s2ef_config_def)

lemma well_formed_is2re_config: "well_formed (is2re_config mean stdev)"
  by (simp add: well_formed_def is2re_config_def)

text \<open>
  Claim C10. In the notebooks \<open>s2ef\<close> and \<open>is2re\<close> the first trainer is given
  \<open>copy.deepcopy(model)\<close>. Whatever the constructor and the training method of the external
  trainer do to the objects they were given, as long as they respect the frame, the
  dictionary bound to \<open>model\<close> keeps its value while the first trainer is created and
  trained, and the second trainer, created from \<open>model\<close> itself after the test set was
  appended to \<open>dataset\<close>, receives the configuration as it was defined: for any well-formed
  state (first part) and for the configuration cells of the two notebooks (second and third
  part).
\<close>

theorem deepcopy_protects_model:
  "respects_frame init \<longrightarrow> respects_frame train \<longrightarrow>
     (well_formed s \<longrightarrow>
        heap (create_and_train init train s) ! model s = heap s ! model s
        \<and> second_trainer_model init train v s = heap s ! model s)
     \<and> second_trainer_model init train s2ef_test_set (s2ef_config mean stdev) = s2ef_model
     \<and> second_trainer_model init train is2re_test_set (is2re_config mean stdev) = is2re_model"
proof (intro impI conjI)
  assume f: "respects_frame init" "respects_frame train"
  show "second_trainer_model init train s2ef_test_set (s2ef_config mean stdev) = s2ef_model"
    using second_trainer_model_original [OF f well_formed_s2ef_config]
    by (simp add: s2ef_config_def)
  show "second_trainer_model init train is2re_test_set (is2re_config mean stdev) = is2re_model"
    using second_trainer_model_original [OF f well_formed_is2re_config]
    by (simp add: is2re_config_def)
  assume w: "well_formed s"
  show "heap (create_and_train init train s) ! model s = heap s ! model s"
    using create_and_train_model [OF f w] by simp
  show "second_trainer_model init train v s = heap s ! model s"
    by (rule second_trainer_model_original [OF f w])
qed

lemma respects_frame_pop_name: "respects_frame pop_name"
  unfolding respects_frame_def pop_name_def
  by (auto split: list.splits)

lemma respects_frame_no_effect: "respects_frame no_effect"
  by (simp add: respects_frame_def no_effect_def)

text \<open>
  A trainer whose constructor removes \<open>name\<close> from the model dictionary it is given respects
  the frame; the second trainer still receives the configuration with its \<open>name\<close>.
\<close>

theorem deepcopy_protects_model_witness:
  "respects_frame pop_name \<and> respects_frame no_effect
   \<and> well_formed (s2ef_config (PFloat 0 0) (PFloat 1 0))
   \<and> second_trainer_model pop_name no_effect s2ef_test_set (s2ef_config (PFloat 0 0) (PFloat 1 0))
       = s2ef_model
   \<and> second_trainer_model pop_name no_effect is2re_test_set (is2re_config (PFloat 0 0) (PFloat 1 0))
       = is2re_model"
  using deepcopy_protects_model [of pop_name no_effect "s2ef_config (PFloat 0 0) (PFloat 1 0)"
      s2ef_test_set "PFloat 0 0" "PFloat 1 0"]
    respects_frame_pop_name respects_frame_no_effect well_formed_s2ef_config
  by blast

text \<open>
  Without the copy the same constructor would change the configuration that the second
  trainer receives.
\<close>

lemma uncopied_model_changes:
  "second_trainer_model_uncopied pop_name no_effect s2ef_test_set (s2ef_config mean stdev)
     \<noteq> s2ef_model"
  by (simp add: second_trainer_model_uncopied_def append_test_set_def s2ef_config_def
      pop_name_def no_effect_def s2ef_model_def Let_def)

end
